theory Spec2Isabelle
  imports
    Complex_Main
    "HOL-Library.Multiset"
    "HOL-Library.Char_ord"
    "HOL-Library.List_Lexorder"
    "HOL-Library.Product_Lexorder"
begin

section \<open>Data model\<close>

text \<open>
  The program of \<^verbatim>\<open>NewEnglandAirportExplorer.py\<close> works on pandas data frames read
  from \<^verbatim>\<open>new_england_airports.csv\<close>. A cell of a text column is a string or missing
  (pandas \<^verbatim>\<open>NaN\<close>, an empty field of the file); a cell of a numeric column is a number
  or missing. Both kinds of cell are options, \<open>None\<close> being the missing marker (the
  \<^verbatim>\<open>None\<close> that the cleaning step of \<^verbatim>\<open>load_data\<close> writes is stored by pandas as the
  same marker). Numbers are reals: the order and the sums of finite floating-point
  values are idealised, rounding is not modelled.

  A row carries the columns that the program reads. \<open>airport_id\<close> is the column
  \<^verbatim>\<open>id\<close>, which \<^verbatim>\<open>set_index("id")\<close> turns into the row label.
\<close>

type_synonym text_cell = "string option"
type_synonym num_cell = "real option"

record airport =
  airport_id :: int
  ident :: text_cell
  type :: text_cell
  name :: text_cell
  latitude_deg :: num_cell
  longitude_deg :: num_cell
  elevation_ft :: num_cell
  iso_region :: text_cell
  municipality :: text_cell
  scheduled_service :: text_cell

text \<open>
  A data frame is its column labels and its rows. The labels matter in one place only:
  \<^verbatim>\<open>pd.DataFrame()\<close> has no column at all, whereas a frame read from a file keeps the
  file's columns even when it has no row. The model covers files whose header has the
  columns above; a file without them makes the program raise \<^verbatim>\<open>KeyError\<close>, which is
  outside the typed rows.
\<close>

record frame =
  columns :: "string list"
  rows :: "airport list"

text \<open>\<^verbatim>\<open>pd.DataFrame()\<close>\<close>

definition DataFrame :: frame where
  "DataFrame = \<lparr>columns = [], rows = []\<rparr>"

text \<open>\<^verbatim>\<open>DataFrame.empty\<close>: some axis has length 0.\<close>

definition frame_empty :: "frame \<Rightarrow> bool" where
  "frame_empty t \<longleftrightarrow> rows t = [] \<or> columns t = []"

text \<open>\<^verbatim>\<open>len(data)\<close>\<close>

definition len :: "frame \<Rightarrow> nat" where
  "len t = length (rows t)"

text \<open>A column of a frame, \<^verbatim>\<open>data["..."]\<close>, as the list of its cells in row order.\<close>

definition col :: "(airport \<Rightarrow> 'a) \<Rightarrow> frame \<Rightarrow> 'a list" where
  "col f t = map f (rows t)"

text \<open>
  \<^verbatim>\<open>Series.isin(values)\<close> for a list of strings: a missing cell is in no such list.
\<close>

definition cell_isin :: "text_cell \<Rightarrow> string list \<Rightarrow> bool" where
  "cell_isin c vals = (case c of None \<Rightarrow> False | Some s \<Rightarrow> s \<in> set vals)"

definition isin :: "text_cell list \<Rightarrow> string list \<Rightarrow> bool list" where
  "isin cells vals = map (\<lambda>c. cell_isin c vals) cells"

text \<open>
  \<^verbatim>\<open>Series <= number\<close>: the comparison of a missing value with anything is false.
\<close>

definition cell_le :: "num_cell \<Rightarrow> real \<Rightarrow> bool" where
  "cell_le e c = (case e of None \<Rightarrow> False | Some v \<Rightarrow> v \<le> c)"

definition le_scalar :: "num_cell list \<Rightarrow> real \<Rightarrow> bool list" where
  "le_scalar cells c = map (\<lambda>e. cell_le e c) cells"

text \<open>\<^verbatim>\<open>mask1 & mask2\<close> on boolean series of the same frame.\<close>

definition series_and :: "bool list \<Rightarrow> bool list \<Rightarrow> bool list" where
  "series_and xs ys = map2 (\<and>) xs ys"

text \<open>Boolean indexing \<^verbatim>\<open>data[mask]\<close>: the rows whose mask entry is true, in order.\<close>

definition select_rows :: "frame \<Rightarrow> bool list \<Rightarrow> frame" where
  "select_rows t keep = t\<lparr>rows := map fst (filter snd (zip (rows t) keep))\<rparr>"

section \<open>Loading\<close>

text \<open>The dictionary \<^verbatim>\<open>STATES\<close>, in its insertion order.\<close>

definition STATES :: "(string \<times> string) list" where
  "STATES =
    [(''US-CT'', ''Connecticut''),
     (''US-ME'', ''Maine''),
     (''US-MA'', ''Massachusetts''),
     (''US-NH'', ''New Hampshire''),
     (''US-RI'', ''Rhode Island''),
     (''US-VT'', ''Vermont'')]"

definition STATES_keys :: "string list" where
  "STATES_keys = map fst STATES"

definition STATES_values :: "string list" where
  "STATES_values = map snd STATES"

definition airport_types :: "string list" where
  "airport_types = [''small_airport'', ''medium_airport'', ''large_airport'']"

text \<open>
  What \<^verbatim>\<open>pd.read_csv("new_england_airports.csv")\<close> does: it raises
  \<^verbatim>\<open>FileNotFoundError\<close>, or returns the frame of the file.
\<close>

datatype csv_result = FileNotFoundError | Csv frame

text \<open>\<^verbatim>\<open>set_index("id")\<close>: the column \<^verbatim>\<open>id\<close> becomes the row label.\<close>

definition set_index_id :: "frame \<Rightarrow> frame" where
  "set_index_id t = t\<lparr>columns := removeAll ''id'' (columns t)\<rparr>"

text \<open>
  \<^verbatim>\<open>data["iso_region"].map(STATES)\<close>: each cell is looked up in the dictionary, a cell
  that is no key becomes missing.
\<close>

definition map_STATES :: "text_cell \<Rightarrow> text_cell" where
  "map_STATES c = (case c of None \<Rightarrow> None | Some code \<Rightarrow> map_of STATES code)"

text \<open>
  \<^verbatim>\<open>sort_values(by="elevation_ft")\<close>: ascending, missing values last. The key puts
  every missing value after every number. The default \<^verbatim>\<open>kind\<close> of \<^verbatim>\<open>sort_values\<close> is
  numpy's quicksort, which is not stable: the order in which rows of equal elevation come
  out is not specified and depends on the numpy at hand. The sorting routine is therefore
  a parameter \<open>kind\<close> of the model. What is known of it is \<open>sorts_by_elevation\<close>: it
  returns the rows it is given, each as often as given, in non-decreasing order of the key.
\<close>

definition na_last :: "num_cell \<Rightarrow> bool \<times> real" where
  "na_last e = (case e of None \<Rightarrow> (True, 0) | Some v \<Rightarrow> (False, v))"

definition sorts_by_elevation :: "(airport list \<Rightarrow> airport list) \<Rightarrow> bool" where
  "sorts_by_elevation kind \<longleftrightarrow>
    (\<forall>xs. mset (kind xs) = mset xs \<and> sorted (map (\<lambda>r. na_last (elevation_ft r)) (kind xs)))"

definition sort_values_elevation :: "(airport list \<Rightarrow> airport list) \<Rightarrow> frame \<Rightarrow> frame" where
  "sort_values_elevation kind t = t\<lparr>rows := kind (rows t)\<rparr>"

text \<open>
  One such routine, used to run the model: the stable insertion sort, which keeps rows of
  equal elevation in their order of the file.
\<close>

definition stable_sort :: "airport list \<Rightarrow> airport list" where
  "stable_sort xs = sort_key (\<lambda>r. na_last (elevation_ft r)) xs"

text \<open>\<^verbatim>\<open>lambda x: x if x > 0 else None\<close>; \<^verbatim>\<open>NaN > 0\<close> is false.\<close>

definition clean_elevation :: "num_cell \<Rightarrow> num_cell" where
  "clean_elevation x = (case x of None \<Rightarrow> None | Some v \<Rightarrow> if v > 0 then Some v else None)"

text \<open>
  The user interface is Streamlit's: a call of \<^verbatim>\<open>st.*\<close> appends one element to the
  page. A run of the program is the list of the elements it appended. A chart carries the
  data it is drawn from; the texts are kept where they tell the elements apart, without
  their emoji.
\<close>

datatype chart =
    Scatter_geo frame
  | Bar "(string \<times> num_cell) list"
  | Scatterpolar "(string \<times> nat \<times> num_cell) list"
  | Box frame

datatype ui_event =
    St_title
  | St_sidebar_header
  | St_sidebar_markdown
  | St_sidebar_write
  | St_sidebar_widget string
  | St_error string
  | St_subheader
  | St_write string
  | St_write_count string nat
  | St_markdown string
  | St_plotly_chart chart

text \<open>
  \<^verbatim>\<open>load_data\<close> returns its frame; the first component is what it wrote to the page.
  \<open>load_data_with kind\<close> is the function with the sorting routine \<open>kind\<close>; \<open>load_data\<close>
  is the function run with the stable routine. The statements below that are about the
  order of the loaded rows are made for \<open>load_data_with kind\<close>, for every routine that
  \<open>sorts_by_elevation\<close>; the others do not depend on the order of the rows.
\<close>

definition load_data_with :: "(airport list \<Rightarrow> airport list) \<Rightarrow> csv_result \<Rightarrow> ui_event list \<times> frame" where
  "load_data_with kind src =
    (case src of
       FileNotFoundError \<Rightarrow>
         ([St_error ''File not found. Please make sure 'new_england_airports.csv' is in the correct directory.''],
          DataFrame)
     | Csv f \<Rightarrow>
         (let data = set_index_id f;
              data = select_rows data (isin (col iso_region data) STATES_keys);
              data = select_rows data (isin (col type data) airport_types);
              data = data\<lparr>rows := map (\<lambda>r. r\<lparr>iso_region := map_STATES (iso_region r)\<rparr>) (rows data)\<rparr>;
              data = sort_values_elevation kind data;
              data = data\<lparr>rows := map (\<lambda>r. r\<lparr>elevation_ft := clean_elevation (elevation_ft r)\<rparr>) (rows data)\<rparr>
          in ([], data)))"

definition load_data :: "csv_result \<Rightarrow> ui_event list \<times> frame" where
  "load_data src = load_data_with stable_sort src"

section \<open>Filtering\<close>

definition filter_data ::
  "frame \<Rightarrow> string list \<Rightarrow> real \<Rightarrow> string list \<Rightarrow> string list \<Rightarrow> frame \<times> nat" where
  "filter_data data regions elevation types service_filter =
    (let filtered_data =
       select_rows data
         (series_and
           (series_and
             (series_and (isin (col iso_region data) regions)
                         (le_scalar (col elevation_ft data) elevation))
             (isin (col type data) types))
           (isin (col scheduled_service data) service_filter))
     in (filtered_data, len filtered_data))"

section \<open>Aggregation and charts\<close>

text \<open>
  \<^verbatim>\<open>data.groupby("iso_region")\<close>: one group for each region name that occurs, in
  sorted order; rows whose region is missing belong to no group.
\<close>

definition group_keys :: "frame \<Rightarrow> string list" where
  "group_keys t = sort (remdups (List.map_filter iso_region (rows t)))"

definition group_rows :: "frame \<Rightarrow> string \<Rightarrow> airport list" where
  "group_rows t k = filter (\<lambda>r. iso_region r = Some k) (rows t)"

text \<open>\<^verbatim>\<open>.size()\<close>: the number of rows of each group.\<close>

definition groupby_size :: "frame \<Rightarrow> (string \<times> nat) list" where
  "groupby_size t = map (\<lambda>k. (k, length (group_rows t k))) (group_keys t)"

text \<open>
  \<^verbatim>\<open>.mean()\<close> of a group's elevations: pandas runs over the values keeping a running
  sum and a count of the values that are present, and divides at the end; with no present
  value the result is the missing marker.
\<close>

fun mean_step :: "num_cell \<Rightarrow> real \<times> nat \<Rightarrow> real \<times> nat" where
  "mean_step None (s, n) = (s, n)"
| "mean_step (Some v) (s, n) = (s + v, Suc n)"

definition mean :: "num_cell list \<Rightarrow> num_cell" where
  "mean cells = (case fold mean_step cells (0, 0) of (s, n) \<Rightarrow> if n = 0 then None else Some (s / real n))"

definition groupby_mean :: "frame \<Rightarrow> (string \<times> num_cell) list" where
  "groupby_mean t = map (\<lambda>k. (k, mean (map elevation_ft (group_rows t k)))) (group_keys t)"

text \<open>\<^verbatim>\<open>pd.merge(counts, avg_elevation, on="iso_region")\<close>: the inner join on the region.\<close>

definition merge_on_region ::
  "(string \<times> nat) list \<Rightarrow> (string \<times> num_cell) list \<Rightarrow> (string \<times> nat \<times> num_cell) list" where
  "merge_on_region counts avg = concat (map (\<lambda>(k, c). map (\<lambda>(k', m). (k, c, m)) (filter (\<lambda>(k', m). k' = k) avg)) counts)"

text \<open>
  \<^verbatim>\<open>Series.value_counts()\<close>: the number of occurrences of each value that occurs, missing
  cells not counted; \<^verbatim>\<open>.get(key, default)\<close> reads it.
\<close>

definition value_counts :: "text_cell list \<Rightarrow> (string \<rightharpoonup> nat)" where
  "value_counts cells = (\<lambda>v. if Some v \<in> set cells then Some (count_list cells (Some v)) else None)"

definition get :: "(string \<rightharpoonup> nat) \<Rightarrow> string \<Rightarrow> nat \<Rightarrow> nat" where
  "get m k d = (case m k of None \<Rightarrow> d | Some c \<Rightarrow> c)"

definition create_map :: "frame \<Rightarrow> ui_event list" where
  "create_map data = [St_plotly_chart (Scatter_geo data)]"

definition create_elevation_chart :: "frame \<Rightarrow> ui_event list" where
  "create_elevation_chart data = (let avg_elevation = groupby_mean data in [St_plotly_chart (Bar avg_elevation)])"

definition create_radar_chart :: "frame \<Rightarrow> ui_event list" where
  "create_radar_chart data =
    (let counts = groupby_size data;
         avg_elevation = groupby_mean data;
         combined = merge_on_region counts avg_elevation
     in [St_plotly_chart (Scatterpolar combined)])"

definition create_boxplot :: "frame \<Rightarrow> ui_event list" where
  "create_boxplot data = [St_plotly_chart (Box data)]"

definition display_metrics :: "frame \<Rightarrow> ui_event list" where
  "display_metrics data =
    (let total_airports = len data;
         type_counts = value_counts (col type data)
     in [St_markdown ''### Key Metrics'',
         St_write_count ''Total Airports'' total_airports,
         St_write_count ''Large Airports'' (get type_counts ''large_airport'' 0),
         St_write_count ''Medium Airports'' (get type_counts ''medium_airport'' 0),
         St_write_count ''Small Airports'' (get type_counts ''small_airport'' 0)])"

section \<open>The main pipeline\<close>

text \<open>The values of the sidebar's widgets, chosen by the user.\<close>

record widgets =
  selected_regions :: "string list"
  max_elevation :: int
  selected_types :: "string list"
  commercial_only :: bool

text \<open>
  A run of \<^verbatim>\<open>main\<close> is the page it wrote together with the functions of the program
  that it called, in the order of the calls.
\<close>

datatype call =
    Load_data
  | Filter_data
  | Create_map
  | Create_elevation_chart
  | Create_radar_chart
  | Create_boxplot
  | Display_metrics

definition main :: "csv_result \<Rightarrow> widgets \<Rightarrow> ui_event list \<times> call list" where
  "main src w =
    (let page = [St_title, St_sidebar_header, St_sidebar_markdown, St_sidebar_write];
         (errors, data) = load_data src;
         page = page @ errors
     in if frame_empty data then (page, [Load_data])
        else
          (let service_filter = (if commercial_only w then [''yes''] else [''yes'', ''no'']);
               (filtered_data, filtered_count) =
                 filter_data data (selected_regions w) (real_of_int (max_elevation w))
                   (selected_types w) service_filter
           in (page
               @ [St_sidebar_widget ''Regions'', St_sidebar_widget ''Maximum Elevation (ft)'',
                  St_sidebar_widget ''Airport Types'',
                  St_sidebar_widget ''Only Show Commercial Airports'']
               @ [St_subheader, St_write ''Explore the data through the following visualizations:'']
               @ [St_markdown ''#### Airport Map''] @ create_map filtered_data
               @ [St_markdown ''#### Average Elevation by State''] @ create_elevation_chart filtered_data
               @ [St_markdown ''#### Airport Distribution''] @ create_radar_chart filtered_data
               @ [St_markdown ''#### Elevation Spread''] @ create_boxplot filtered_data
               @ display_metrics filtered_data,
               [Load_data, Filter_data, Create_map, Create_elevation_chart, Create_radar_chart,
                Create_boxplot, Display_metrics])))"

section \<open>Notions used to state the properties\<close>

text \<open>
  The rows that the two restrictions of \<open>load_data\<close> keep: the region code is a key of
  \<^verbatim>\<open>STATES\<close> and the type is one of the three airport types.
\<close>

definition retained :: "airport \<Rightarrow> bool" where
  "retained r \<longleftrightarrow> cell_isin (iso_region r) STATES_keys \<and> cell_isin (type r) airport_types"

text \<open>What the renaming of the region and the cleaning of the elevation make of a row.\<close>

definition loaded_row :: "airport \<Rightarrow> airport" where
  "loaded_row r =
    r\<lparr>iso_region := map_STATES (iso_region r), elevation_ft := clean_elevation (elevation_ft r)\<rparr>"

text \<open>The elevation cells, as stored in the file, of the retained rows.\<close>

definition stored_elevations :: "frame \<Rightarrow> num_cell list" where
  "stored_elevations f = map elevation_ft (filter retained (rows f))"

text \<open>The values of the cells that are present, in order.\<close>

fun present :: "num_cell list \<Rightarrow> real list" where
  "present [] = []"
| "present (None # cells) = present cells"
| "present (Some v # cells) = v # present cells"

definition nonpositive :: "num_cell \<Rightarrow> bool" where
  "nonpositive e = (case e of None \<Rightarrow> False | Some v \<Rightarrow> v \<le> 0)"

definition positive :: "num_cell \<Rightarrow> bool" where
  "positive e = (case e of None \<Rightarrow> False | Some v \<Rightarrow> 0 < v)"

text \<open>
  The arithmetic mean of a list of numbers, as the specification words the per-region
  mean elevation: the sum divided by the number of values, and absent when there is no
  value.
\<close>

definition arithmetic_mean :: "real list \<Rightarrow> num_cell" where
  "arithmetic_mean vs = (if vs = [] then None else Some (sum_list vs / real (length vs)))"

text \<open>
  The two placements of the missing marker that the specification's sort-order property
  names: all the missing cells first, or all of them last.
\<close>

definition missing_first :: "num_cell list \<Rightarrow> bool" where
  "missing_first cells \<longleftrightarrow>
    cells = replicate (count_list cells None) None @ map Some (present cells)"

definition missing_last :: "num_cell list \<Rightarrow> bool" where
  "missing_last cells \<longleftrightarrow>
    cells = map Some (present cells) @ replicate (count_list cells None) None"

section \<open>An example file\<close>

text \<open>
  A small file used to run the definitions: six rows, of which one is outside New
  England, one is a heliport, one has a negative stored elevation and one has no stored
  elevation. \<open>example_loaded\<close> is the frame that \<open>load_data\<close> makes of it.
\<close>

definition example_airport :: "int \<Rightarrow> string \<Rightarrow> num_cell \<Rightarrow> string \<Rightarrow> string \<Rightarrow> airport" where
  "example_airport i ty e rg sv =
    \<lparr>airport_id = i, ident = None, type = Some ty, name = None, latitude_deg = None,
     longitude_deg = None, elevation_ft = e, iso_region = Some rg, municipality = None,
     scheduled_service = Some sv\<rparr>"

definition example_csv :: frame where
  "example_csv =
    \<lparr>columns = [''id'', ''ident'', ''type'', ''name'', ''latitude_deg'', ''longitude_deg'',
                ''elevation_ft'', ''iso_region'', ''municipality'', ''scheduled_service''],
     rows = [example_airport 1 ''large_airport'' (Some 20) ''US-MA'' ''yes'',
             example_airport 2 ''small_airport'' None ''US-VT'' ''no'',
             example_airport 3 ''large_airport'' (Some 13) ''US-NY'' ''yes'',
             example_airport 4 ''small_airport'' (Some (-5)) ''US-MA'' ''no'',
             example_airport 5 ''heliport'' (Some 100) ''US-CT'' ''no'',
             example_airport 6 ''medium_airport'' (Some 1400) ''US-ME'' ''no'']\<rparr>"

definition example_loaded :: frame where
  "example_loaded =
    \<lparr>columns = [''ident'', ''type'', ''name'', ''latitude_deg'', ''longitude_deg'',
                ''elevation_ft'', ''iso_region'', ''municipality'', ''scheduled_service''],
     rows = [example_airport 4 ''small_airport'' None ''Massachusetts'' ''no'',
             example_airport 1 ''large_airport'' (Some 20) ''Massachusetts'' ''yes'',
             example_airport 6 ''medium_airport'' (Some 1400) ''Maine'' ''no'',
             example_airport 2 ''small_airport'' None ''Vermont'' ''no'']\<rparr>"

text \<open>
  A file none of whose rows is retained, and a choice of the widgets (the defaults of the
  sidebar).
\<close>

definition example_outside :: frame where
  "example_outside =
    \<lparr>columns = [''id'', ''ident'', ''type'', ''name'', ''latitude_deg'', ''longitude_deg'',
                ''elevation_ft'', ''iso_region'', ''municipality'', ''scheduled_service''],
     rows = [example_airport 3 ''large_airport'' (Some 13) ''US-NY'' ''yes'',
             example_airport 5 ''heliport'' (Some 100) ''US-CT'' ''no'']\<rparr>"

definition example_widgets :: widgets where
  "example_widgets =
    \<lparr>selected_regions = STATES_values, max_elevation = 2000, selected_types = airport_types,
     commercial_only = False\<rparr>"

text \<open>
  A file with two retained rows in one region, and the frame that \<open>load_data\<close> makes of
  it.
\<close>

definition example_groups :: frame where
  "example_groups =
    \<lparr>columns = [''id'', ''ident'', ''type'', ''name'', ''latitude_deg'', ''longitude_deg'',
                ''elevation_ft'', ''iso_region'', ''municipality'', ''scheduled_service''],
     rows = [example_airport 6 ''medium_airport'' (Some 1400) ''US-ME'' ''no'',
             example_airport 1 ''large_airport'' (Some 20) ''US-MA'' ''yes'',
             example_airport 5 ''heliport'' (Some 100) ''US-CT'' ''no'',
             example_airport 7 ''small_airport'' (Some 150) ''US-MA'' ''no'',
             example_airport 8 ''small_airport'' (Some 600) ''US-VT'' ''no'']\<rparr>"

definition example_groups_loaded :: frame where
  "example_groups_loaded =
    \<lparr>columns = [''ident'', ''type'', ''name'', ''latitude_deg'', ''longitude_deg'',
                ''elevation_ft'', ''iso_region'', ''municipality'', ''scheduled_service''],
     rows = [example_airport 1 ''large_airport'' (Some 20) ''Massachusetts'' ''yes'',
             example_airport 7 ''small_airport'' (Some 150) ''Massachusetts'' ''no'',
             example_airport 8 ''small_airport'' (Some 600) ''Vermont'' ''no'',
             example_airport 6 ''medium_airport'' (Some 1400) ''Maine'' ''no'']\<rparr>"

text \<open>
  Another routine that \<open>sorts_by_elevation\<close>: it gives rows of equal elevation in the
  reverse of their order in the file. And a file with rows of equal elevation, on which
  the two routines differ.
\<close>

definition na_first_descending :: "num_cell \<Rightarrow> bool \<times> real" where
  "na_first_descending e = (case e of None \<Rightarrow> (False, 0) | Some v \<Rightarrow> (True, - v))"

definition reversing_sort :: "airport list \<Rightarrow> airport list" where
  "reversing_sort xs = rev (sort_key (\<lambda>r. na_first_descending (elevation_ft r)) xs)"

definition example_ties_csv :: frame where
  "example_ties_csv =
    \<lparr>columns = [''id'', ''ident'', ''type'', ''name'', ''latitude_deg'', ''longitude_deg'',
                ''elevation_ft'', ''iso_region'', ''municipality'', ''scheduled_service''],
     rows = [example_airport 1 ''small_airport'' (Some 50) ''US-ME'' ''no'',
             example_airport 2 ''small_airport'' (Some 50) ''US-VT'' ''no'',
             example_airport 3 ''small_airport'' (Some (-5)) ''US-ME'' ''no'',
             example_airport 4 ''small_airport'' (Some (-5)) ''US-MA'' ''no'']\<rparr>"

section \<open>Basic facts about the frame operations\<close>

lemma select_map: "map fst (filter snd (zip xs (map P xs))) = filter P xs"
  by (induction xs) auto

lemma map2_and_map: "map2 (\<and>) (map P xs) (map Q xs) = map (\<lambda>x. P x \<and> Q x) xs"
  by (induction xs) auto

lemma cell_isin_Some: "cell_isin c vals \<longleftrightarrow> (\<exists>s. c = Some s \<and> s \<in> set vals)"
  by (cases c) (simp_all add: cell_isin_def)

lemma cell_le_Some: "cell_le e c \<longleftrightarrow> (\<exists>v. e = Some v \<and> v \<le> c)"
  by (cases e) (simp_all add: cell_le_def)

lemma cell_isin_mono: "set vals \<subseteq> set vals' \<Longrightarrow> cell_isin c vals \<Longrightarrow> cell_isin c vals'"
  by (auto simp: cell_isin_Some)

lemma cell_le_mono: "c \<le> c' \<Longrightarrow> cell_le e c \<Longrightarrow> cell_le e c'"
  by (auto simp: cell_le_Some)

text \<open>The rows that \<open>filter_data\<close> keeps, and its count.\<close>

lemma rows_filter_data:
  "rows (fst (filter_data t rg c ty sv)) =
     filter (\<lambda>r. cell_isin (iso_region r) rg \<and> cell_le (elevation_ft r) c
                 \<and> cell_isin (type r) ty \<and> cell_isin (scheduled_service r) sv) (rows t)"
  by (simp add: filter_data_def Let_def select_rows_def series_and_def isin_def le_scalar_def
      col_def map2_and_map select_map)

lemma snd_filter_data:
  "snd (filter_data t rg c ty sv) = length (rows (fst (filter_data t rg c ty sv)))"
  by (simp add: filter_data_def Let_def len_def)

text \<open>The rows that \<open>load_data\<close> returns for a file that was read.\<close>

lemma rows_load_data:
  "rows (snd (load_data (Csv f))) =
     map (\<lambda>r. r\<lparr>elevation_ft := clean_elevation (elevation_ft r)\<rparr>)
       (sort_key (\<lambda>r. na_last (elevation_ft r))
         (map (\<lambda>r. r\<lparr>iso_region := map_STATES (iso_region r)\<rparr>)
           (filter (\<lambda>r. cell_isin (iso_region r) STATES_keys \<and> cell_isin (type r) airport_types)
             (rows f))))"
  by (simp add: load_data_def load_data_with_def stable_sort_def Let_def select_rows_def isin_def col_def set_index_id_def
      sort_values_elevation_def select_map conj_commute)

lemma set_rows_load_data:
  "set (rows (snd (load_data (Csv f)))) =
    (\<lambda>r. r\<lparr>iso_region := map_STATES (iso_region r),
            elevation_ft := clean_elevation (elevation_ft r)\<rparr>)
      ` {r \<in> set (rows f). cell_isin (iso_region r) STATES_keys \<and> cell_isin (type r) airport_types}"
  by (auto simp add: rows_load_data image_iff)

lemma load_data_example: "load_data (Csv example_csv) = ([], example_loaded)"
  by (simp add: load_data_def load_data_with_def stable_sort_def Let_def example_csv_def example_loaded_def example_airport_def
      set_index_id_def select_rows_def isin_def cell_isin_def col_def STATES_keys_def STATES_def
      airport_types_def map_STATES_def sort_values_elevation_def na_last_def clean_elevation_def)

lemma filter_data_example:
  "filter_data example_loaded STATES_values 2000 airport_types [''yes'', ''no''] =
    (example_loaded\<lparr>rows :=
       [example_airport 1 ''large_airport'' (Some 20) ''Massachusetts'' ''yes'',
        example_airport 6 ''medium_airport'' (Some 1400) ''Maine'' ''no'']\<rparr>, 2)"
  by (simp add: filter_data_def Let_def example_loaded_def example_airport_def len_def
      select_rows_def isin_def cell_isin_def col_def STATES_values_def STATES_def
      airport_types_def series_and_def le_scalar_def cell_le_def)

section \<open>The filter\<close>

text \<open>
  Claim C1, as the specification states it: a record whose stored elevation was
  non-positive, and which carries the missing marker after the load, is in the output of
  the filter with ceiling 2000 when the other criteria admit it. The program does
  otherwise. In the example file the airport 4 has the stored elevation -5; it is loaded
  with the missing marker, its region, type and service flag are admitted, and it is not
  in the filter's output.
\<close>

theorem missing_elevation_included_counterexample:
  "example_airport 4 ''small_airport'' (Some (-5)) ''US-MA'' ''no'' \<in> set (rows example_csv)
   \<and> example_airport 4 ''small_airport'' None ''Massachusetts'' ''no''
        \<in> set (rows (snd (load_data (Csv example_csv))))
   \<and> cell_isin (iso_region (example_airport 4 ''small_airport'' None ''Massachusetts'' ''no''))
        STATES_values
   \<and> cell_isin (type (example_airport 4 ''small_airport'' None ''Massachusetts'' ''no''))
        airport_types
   \<and> cell_isin (scheduled_service (example_airport 4 ''small_airport'' None ''Massachusetts'' ''no''))
        [''yes'', ''no'']
   \<and> example_airport 4 ''small_airport'' None ''Massachusetts'' ''no''
        \<notin> set (rows (fst (filter_data (snd (load_data (Csv example_csv))) STATES_values 2000
                                airport_types [''yes'', ''no''])))"
  by (simp add: load_data_example filter_data_example)
    (simp add: example_csv_def example_loaded_def example_airport_def cell_isin_def
      STATES_values_def STATES_def airport_types_def)

text \<open>
  Claim C1, amended: for every file that is read, a retained record whose stored
  elevation is a non-positive number is in the loaded table with its region renamed and
  the missing marker for its elevation, and the filter excludes it from its output,
  whatever the ceiling (2000 included) and the other criteria: the comparison of a
  missing elevation with the ceiling is false.
\<close>

theorem missing_elevation_excluded:
  "\<forall>r0 \<in> set (rows f).
      cell_isin (iso_region r0) STATES_keys \<and> cell_isin (type r0) airport_types
      \<and> cell_le (elevation_ft r0) 0 \<longrightarrow>
        r0\<lparr>iso_region := map_STATES (iso_region r0), elevation_ft := None\<rparr>
          \<in> set (rows (snd (load_data (Csv f))))
        \<and> r0\<lparr>iso_region := map_STATES (iso_region r0), elevation_ft := None\<rparr>
          \<notin> set (rows (fst (filter_data (snd (load_data (Csv f))) regions elevation types services)))"
proof (intro ballI impI conjI)
  fix r0
  assume "r0 \<in> set (rows f)"
    and h: "cell_isin (iso_region r0) STATES_keys \<and> cell_isin (type r0) airport_types
      \<and> cell_le (elevation_ft r0) 0"
  moreover from h have "clean_elevation (elevation_ft r0) = None"
    by (auto simp: cell_le_Some clean_elevation_def)
  ultimately show "r0\<lparr>iso_region := map_STATES (iso_region r0), elevation_ft := None\<rparr>
          \<in> set (rows (snd (load_data (Csv f))))"
    unfolding set_rows_load_data by force
next
  fix r0
  show "r0\<lparr>iso_region := map_STATES (iso_region r0), elevation_ft := None\<rparr>
          \<notin> set (rows (fst (filter_data (snd (load_data (Csv f))) regions elevation types services)))"
    by (simp add: rows_filter_data cell_le_def)
qed

theorem missing_elevation_excluded_witness:
  "example_airport 4 ''small_airport'' (Some (-5)) ''US-MA'' ''no'' \<in> set (rows example_csv)
   \<and> cell_isin (iso_region (example_airport 4 ''small_airport'' (Some (-5)) ''US-MA'' ''no'')) STATES_keys
   \<and> cell_isin (type (example_airport 4 ''small_airport'' (Some (-5)) ''US-MA'' ''no'')) airport_types
   \<and> cell_le (elevation_ft (example_airport 4 ''small_airport'' (Some (-5)) ''US-MA'' ''no'')) 0
   \<and> example_airport 4 ''small_airport'' None ''Massachusetts'' ''no''
        \<in> set (rows (snd (load_data (Csv example_csv))))
   \<and> example_airport 4 ''small_airport'' None ''Massachusetts'' ''no''
        \<notin> set (rows (fst (filter_data (snd (load_data (Csv example_csv))) STATES_values 3000
                                airport_types [''yes'', ''no''])))"
proof -
  have a: "example_airport 4 ''small_airport'' (Some (-5)) ''US-MA'' ''no'' \<in> set (rows example_csv)"
    by (simp add: example_csv_def)
  have b: "cell_isin (iso_region (example_airport 4 ''small_airport'' (Some (-5)) ''US-MA'' ''no'')) STATES_keys
     \<and> cell_isin (type (example_airport 4 ''small_airport'' (Some (-5)) ''US-MA'' ''no'')) airport_types
     \<and> cell_le (elevation_ft (example_airport 4 ''small_airport'' (Some (-5)) ''US-MA'' ''no'')) 0"
    by (simp add: example_airport_def cell_isin_def cell_le_def STATES_keys_def STATES_def
        airport_types_def)
  have c: "(example_airport 4 ''small_airport'' (Some (-5)) ''US-MA'' ''no'')
             \<lparr>iso_region := map_STATES (iso_region (example_airport 4 ''small_airport'' (Some (-5)) ''US-MA'' ''no'')),
              elevation_ft := None\<rparr>
           = example_airport 4 ''small_airport'' None ''Massachusetts'' ''no''"
    by (simp add: example_airport_def map_STATES_def STATES_def)
  from missing_elevation_excluded [of example_csv STATES_values 3000 airport_types "[''yes'', ''no'']"]
    a b c show ?thesis by auto
qed

text \<open>
  Claim C2: every row of the subset that \<open>filter_data\<close> returns is a row of the table,
  its region is one of the allowed regions, its elevation is present and at most the
  ceiling, its type is one of the allowed types, its service flag is one of the allowed
  flags; and the returned count is the number of rows of the subset.
\<close>

theorem filter_data_conjunction:
  "(\<forall>r \<in> set (rows (fst (filter_data t regions elevation types services))).
      r \<in> set (rows t)
      \<and> (\<exists>s. iso_region r = Some s \<and> s \<in> set regions)
      \<and> (\<exists>e. elevation_ft r = Some e \<and> e \<le> elevation)
      \<and> (\<exists>s. type r = Some s \<and> s \<in> set types)
      \<and> (\<exists>s. scheduled_service r = Some s \<and> s \<in> set services))
   \<and> snd (filter_data t regions elevation types services)
       = length (rows (fst (filter_data t regions elevation types services)))"
proof (intro conjI ballI)
  fix r
  assume "r \<in> set (rows (fst (filter_data t regions elevation types services)))"
  then have r: "r \<in> set (rows t)" "cell_isin (iso_region r) regions"
    "cell_le (elevation_ft r) elevation" "cell_isin (type r) types"
    "cell_isin (scheduled_service r) services"
    by (simp_all add: rows_filter_data)
  show "r \<in> set (rows t)" by (rule r)
  show "\<exists>s. iso_region r = Some s \<and> s \<in> set regions"
    using r(2) by (simp add: cell_isin_Some)
  show "\<exists>e. elevation_ft r = Some e \<and> e \<le> elevation"
    using r(3) by (simp add: cell_le_Some)
  show "\<exists>s. type r = Some s \<and> s \<in> set types"
    using r(4) by (simp add: cell_isin_Some)
  show "\<exists>s. scheduled_service r = Some s \<and> s \<in> set services"
    using r(5) by (simp add: cell_isin_Some)
next
  show "snd (filter_data t regions elevation types services)
       = length (rows (fst (filter_data t regions elevation types services)))"
    by (rule snd_filter_data)
qed

theorem filter_data_conjunction_witness:
  "rows (fst (filter_data example_loaded STATES_values 2000 airport_types [''yes'', ''no'']))
     = [example_airport 1 ''large_airport'' (Some 20) ''Massachusetts'' ''yes'',
        example_airport 6 ''medium_airport'' (Some 1400) ''Maine'' ''no'']
   \<and> example_airport 6 ''medium_airport'' (Some 1400) ''Maine'' ''no'' \<in> set (rows example_loaded)
   \<and> (\<exists>s. iso_region (example_airport 6 ''medium_airport'' (Some 1400) ''Maine'' ''no'') = Some s
          \<and> s \<in> set STATES_values)
   \<and> (\<exists>e. elevation_ft (example_airport 6 ''medium_airport'' (Some 1400) ''Maine'' ''no'') = Some e
          \<and> e \<le> 2000)
   \<and> (\<exists>s. type (example_airport 6 ''medium_airport'' (Some 1400) ''Maine'' ''no'') = Some s
          \<and> s \<in> set airport_types)
   \<and> (\<exists>s. scheduled_service (example_airport 6 ''medium_airport'' (Some 1400) ''Maine'' ''no'') = Some s
          \<and> s \<in> set [''yes'', ''no''])
   \<and> snd (filter_data example_loaded STATES_values 2000 airport_types [''yes'', ''no'']) = 2"
  using filter_data_conjunction [of example_loaded STATES_values 2000 airport_types "[''yes'', ''no'']"]
  by (simp add: filter_data_example)

lemma length_filter_mono:
  "(\<And>x. x \<in> set xs \<Longrightarrow> P x \<Longrightarrow> Q x) \<Longrightarrow> length (filter P xs) \<le> length (filter Q xs)"
  by (induction xs) auto

lemma filter_data_count_mono:
  assumes "set rg \<subseteq> set rg'" and "c \<le> c'" and "set ty \<subseteq> set ty'" and "set sv \<subseteq> set sv'"
  shows "snd (filter_data t rg c ty sv) \<le> snd (filter_data t rg' c' ty' sv')"
  unfolding snd_filter_data rows_filter_data
  using assms by (intro length_filter_mono) (auto intro: cell_isin_mono cell_le_mono)

text \<open>
  Claim C3: enlarging one of the four criteria (more allowed regions, a higher ceiling,
  more allowed types, more allowed service flags) with the other three fixed never
  decreases the count that \<open>filter_data\<close> returns.
\<close>

theorem filter_data_monotone:
  "(set regions \<subseteq> set regions' \<longrightarrow>
      snd (filter_data t regions elevation types services)
        \<le> snd (filter_data t regions' elevation types services))
   \<and> (elevation \<le> elevation' \<longrightarrow>
      snd (filter_data t regions elevation types services)
        \<le> snd (filter_data t regions elevation' types services))
   \<and> (set types \<subseteq> set types' \<longrightarrow>
      snd (filter_data t regions elevation types services)
        \<le> snd (filter_data t regions elevation types' services))
   \<and> (set services \<subseteq> set services' \<longrightarrow>
      snd (filter_data t regions elevation types services)
        \<le> snd (filter_data t regions elevation types services'))"
  by (simp add: filter_data_count_mono)

theorem filter_data_monotone_witness:
  "set [''Maine''] \<subseteq> set STATES_values
   \<and> snd (filter_data example_loaded [''Maine''] 100 [''medium_airport''] [''no'']) = 0
   \<and> snd (filter_data example_loaded STATES_values 100 [''medium_airport''] [''no'']) = 0
   \<and> (100::real) \<le> 2000
   \<and> snd (filter_data example_loaded [''Maine''] 2000 [''medium_airport''] [''no'']) = 1
   \<and> set [''medium_airport''] \<subseteq> set airport_types
   \<and> snd (filter_data example_loaded [''Maine''] 100 airport_types [''no'']) = 0
   \<and> set [''no''] \<subseteq> set [''yes'', ''no'']
   \<and> snd (filter_data example_loaded [''Maine''] 100 [''medium_airport''] [''yes'', ''no'']) = 0"
  using filter_data_monotone [of "[''Maine'']" STATES_values example_loaded 100 "[''medium_airport'']"
      "[''no'']" 2000 airport_types "[''yes'', ''no'']"]
  by (simp add: snd_filter_data rows_filter_data example_loaded_def example_airport_def
      cell_isin_def cell_le_def STATES_values_def STATES_def airport_types_def)

section \<open>The loader\<close>

lemma rows_load_data_retained:
  "rows (snd (load_data (Csv f))) =
     map (\<lambda>r. r\<lparr>elevation_ft := clean_elevation (elevation_ft r)\<rparr>)
       (sort_key (\<lambda>r. na_last (elevation_ft r))
         (map (\<lambda>r. r\<lparr>iso_region := map_STATES (iso_region r)\<rparr>) (filter retained (rows f))))"
  unfolding retained_def by (rule rows_load_data)

lemma mset_rows_load_data:
  "mset (rows (snd (load_data (Csv f)))) = image_mset loaded_row (filter_mset retained (mset (rows f)))"
proof -
  have "loaded_row = (\<lambda>r. r\<lparr>iso_region := map_STATES (iso_region r), elevation_ft := clean_elevation (elevation_ft r)\<rparr>)"
    by (simp add: fun_eq_iff loaded_row_def)
  then show ?thesis
    by (simp add: rows_load_data_retained multiset.map_comp comp_def)
qed

lemma STATES_values_set:
  "set STATES_values = {''Connecticut'', ''Maine'', ''Massachusetts'', ''New Hampshire'', ''Rhode Island'', ''Vermont''}"
  by (simp add: STATES_values_def STATES_def)

lemma map_STATES_retained:
  assumes "cell_isin c STATES_keys"
  shows "\<exists>code nm. c = Some code \<and> (code, nm) \<in> set STATES \<and> map_STATES c = Some nm"
proof -
  from assms obtain code where c: "c = Some code" "code \<in> fst ` set STATES"
    by (auto simp: cell_isin_Some STATES_keys_def)
  then obtain nm where nm: "map_of STATES code = Some nm"
    by (cases "map_of STATES code") (simp_all add: map_of_eq_None_iff)
  then have "(code, nm) \<in> set STATES" by (rule map_of_SomeD)
  with c nm show ?thesis by (simp add: map_STATES_def)
qed

lemma STATES_names: "(code, nm) \<in> set STATES \<Longrightarrow> nm \<in> {''Connecticut'', ''Maine'', ''Massachusetts'', ''New Hampshire'', ''Rhode Island'', ''Vermont''}"
  unfolding STATES_values_set [symmetric] STATES_values_def by force

text \<open>
  Claim C9: for every file that is read, every row of the table that \<open>load_data\<close>
  returns comes from a row of the file whose region code is a key of the six-entry
  dictionary \<^verbatim>\<open>STATES\<close>, and its region is the name that the dictionary gives to that
  code, one of Connecticut, Maine, Massachusetts, New Hampshire, Rhode Island and
  Vermont. The rows of the table are exactly the retained rows of the file, rewritten; a
  row whose code is none of the six keys is not retained.
\<close>

theorem load_data_region_closure:
  "(\<forall>r \<in> set (rows (snd (load_data (Csv f)))).
      \<exists>r0 \<in> set (rows f). \<exists>code nm.
        iso_region r0 = Some code \<and> (code, nm) \<in> set STATES \<and> r = loaded_row r0
        \<and> iso_region r = Some nm
        \<and> nm \<in> {''Connecticut'', ''Maine'', ''Massachusetts'', ''New Hampshire'', ''Rhode Island'', ''Vermont''})
   \<and> mset (rows (snd (load_data (Csv f))))
       = image_mset loaded_row (filter_mset retained (mset (rows f)))
   \<and> (\<forall>r0 \<in> set (rows f). (\<forall>code. iso_region r0 = Some code \<longrightarrow> code \<notin> fst ` set STATES) \<longrightarrow> \<not> retained r0)
   \<and> length STATES = 6"
proof (intro conjI ballI impI)
  fix r assume "r \<in> set (rows (snd (load_data (Csv f))))"
  then have "r \<in># image_mset loaded_row (filter_mset retained (mset (rows f)))"
    by (simp flip: mset_rows_load_data)
  then obtain r0 where r0: "r0 \<in> set (rows f)" "retained r0" "r = loaded_row r0"
    by auto
  from r0(2) obtain code nm where c: "iso_region r0 = Some code" "(code, nm) \<in> set STATES"
      "map_STATES (iso_region r0) = Some nm"
    using map_STATES_retained [of "iso_region r0"] by (auto simp: retained_def)
  have rn: "iso_region r = Some nm" using r0(3) c(3) by (simp add: loaded_row_def)
  have nm: "nm \<in> {''Connecticut'', ''Maine'', ''Massachusetts'', ''New Hampshire'', ''Rhode Island'', ''Vermont''}"
    by (rule STATES_names [OF c(2)])
  show "\<exists>r0 \<in> set (rows f). \<exists>code nm.
        iso_region r0 = Some code \<and> (code, nm) \<in> set STATES \<and> r = loaded_row r0
        \<and> iso_region r = Some nm
        \<and> nm \<in> {''Connecticut'', ''Maine'', ''Massachusetts'', ''New Hampshire'', ''Rhode Island'', ''Vermont''}"
    by (intro bexI [OF _ r0(1)] exI [of _ code] exI [of _ nm] conjI c(1) c(2) r0(3) rn nm)
next
  show "mset (rows (snd (load_data (Csv f)))) = image_mset loaded_row (filter_mset retained (mset (rows f)))"
    by (rule mset_rows_load_data)
next
  fix r0 :: airport assume "\<forall>code. iso_region r0 = Some code \<longrightarrow> code \<notin> fst ` set STATES"
  then show "\<not> retained r0"
    by (auto simp: retained_def cell_isin_Some STATES_keys_def)
next
  show "length STATES = 6" by (simp add: STATES_def)
qed

theorem load_data_region_closure_witness:
  "example_airport 1 ''large_airport'' (Some 20) ''Massachusetts'' ''yes''
      \<in> set (rows (snd (load_data (Csv example_csv))))
   \<and> example_airport 1 ''large_airport'' (Some 20) ''US-MA'' ''yes'' \<in> set (rows example_csv)
   \<and> iso_region (example_airport 1 ''large_airport'' (Some 20) ''US-MA'' ''yes'') = Some ''US-MA''
   \<and> (''US-MA'', ''Massachusetts'') \<in> set STATES
   \<and> loaded_row (example_airport 1 ''large_airport'' (Some 20) ''US-MA'' ''yes'')
       = example_airport 1 ''large_airport'' (Some 20) ''Massachusetts'' ''yes''
   \<and> example_airport 3 ''large_airport'' (Some 13) ''US-NY'' ''yes'' \<in> set (rows example_csv)
   \<and> ''US-NY'' \<notin> fst ` set STATES
   \<and> \<not> retained (example_airport 3 ''large_airport'' (Some 13) ''US-NY'' ''yes'')
   \<and> length (rows (snd (load_data (Csv example_csv)))) = 4"
  using load_data_region_closure [of example_csv]
  by (simp add: load_data_example)
    (simp add: example_loaded_def example_csv_def example_airport_def STATES_def loaded_row_def
      map_STATES_def clean_elevation_def retained_def cell_isin_def STATES_keys_def)

text \<open>
  Claim C7: whatever \<^verbatim>\<open>read_csv\<close> does, every row of the table that \<open>load_data\<close>
  returns has an elevation that is the missing marker or a number greater than zero.
\<close>

theorem load_data_elevation_normalized:
  "\<forall>r \<in> set (rows (snd (load_data src))).
      elevation_ft r = None \<or> (\<exists>v. elevation_ft r = Some v \<and> 0 < v)"
proof (cases src)
  case FileNotFoundError
  then show ?thesis by (simp add: load_data_def load_data_with_def stable_sort_def DataFrame_def)
next
  case (Csv f)
  have "clean_elevation e = None \<or> (\<exists>v. clean_elevation e = Some v \<and> 0 < v)" for e
    by (cases e) (simp_all add: clean_elevation_def)
  then show ?thesis
    unfolding Csv set_rows_load_data by auto
qed

theorem load_data_elevation_normalized_witness:
  "example_airport 4 ''small_airport'' None ''Massachusetts'' ''no''
      \<in> set (rows (snd (load_data (Csv example_csv))))
   \<and> elevation_ft (example_airport 4 ''small_airport'' None ''Massachusetts'' ''no'') = None
   \<and> example_airport 1 ''large_airport'' (Some 20) ''Massachusetts'' ''yes''
      \<in> set (rows (snd (load_data (Csv example_csv))))
   \<and> (\<exists>v. elevation_ft (example_airport 1 ''large_airport'' (Some 20) ''Massachusetts'' ''yes'') = Some v
          \<and> 0 < v)"
  using load_data_elevation_normalized [of "Csv example_csv"]
  by (simp add: load_data_example example_loaded_def) (simp add: example_airport_def)

subsection \<open>The order of the loaded table\<close>

lemma insort_key_map: "map g (insort_key (\<lambda>x. f (g x)) a ys) = insort_key f (g a) (map g ys)"
  by (induction ys) simp_all

lemma sort_key_map: "map g (sort_key (\<lambda>x. f (g x)) xs) = sort_key f (map g xs)"
  by (induction xs) (simp_all add: insort_key_map)

lemma insort_key_same_order:
  assumes "\<And>x y. f x \<le> f y \<longleftrightarrow> g x \<le> g y"
  shows "insort_key f a ys = insort_key g a ys"
  by (induction ys) (simp_all add: assms)

lemma sort_key_same_order:
  assumes "\<And>x y. f x \<le> f y \<longleftrightarrow> g x \<le> g y"
  shows "sort_key f xs = sort_key g xs"
  by (induction xs) (simp_all add: insort_key_same_order [of f g, OF assms])

lemma sorted_split:
  assumes "sorted (map k ys)"
    and "\<And>x y. x \<in> set ys \<Longrightarrow> y \<in> set ys \<Longrightarrow> P x \<Longrightarrow> \<not> P y \<Longrightarrow> k x < k y"
  shows "ys = filter P ys @ filter (\<lambda>y. \<not> P y) ys"
  using assms
proof (induction ys)
  case Nil
  then show ?case by simp
next
  case (Cons y ys)
  have IH: "ys = filter P ys @ filter (\<lambda>y. \<not> P y) ys"
    using Cons by simp
  show ?case
  proof (cases "P y")
    case True
    with IH show ?thesis by simp
  next
    case False
    have "\<not> P z" if "z \<in> set ys" for z
    proof
      assume "P z"
      with Cons.prems(2) [of z y] that False have "k z < k y" by simp
      moreover from Cons.prems(1) that have "k y \<le> k z" by simp
      ultimately show False by simp
    qed
    then have "filter P ys = []" "filter (\<lambda>y. \<not> P y) ys = ys"
      by (simp_all add: filter_empty_conv filter_id_conv)
    with False show ?thesis by simp
  qed
qed

lemma map_const_replicate: "(\<And>x. x \<in> set xs \<Longrightarrow> f x = c) \<Longrightarrow> map f xs = replicate (length xs) c"
  by (induction xs) simp_all

lemma filter_positive_present: "filter positive es = map Some (filter (\<lambda>v. 0 < v) (present es))"
  by (induction es rule: present.induct) (simp_all add: positive_def)

lemma length_filter_None: "length (filter (\<lambda>e. e = None) es) = count_list es None"
  by (induction es) simp_all

lemma sort_key_na_last_Some: "sort_key na_last (map Some vs) = map Some (sort vs)"
proof -
  have "sort_key na_last (map Some vs) = map Some (sort_key (\<lambda>v. na_last (Some v)) vs)"
    by (rule sort_key_map [symmetric])
  also have "sort_key (\<lambda>v. na_last (Some v)) vs = sort_key (\<lambda>v. v) vs"
    by (rule sort_key_same_order) (simp add: na_last_def)
  finally show ?thesis .
qed

lemma cleaned_sorted_cells:
  "map clean_elevation (sort_key na_last es) =
     replicate (length (filter nonpositive es)) None
     @ map Some (sort (filter (\<lambda>v. 0 < v) (present es)))
     @ replicate (count_list es None) None"
proof -
  define ys where "ys = sort_key na_last es"
  have sorted: "sorted (map na_last ys)" by (simp add: ys_def)
  have 1: "ys = filter nonpositive ys @ filter (\<lambda>e. \<not> nonpositive e) ys"
    by (rule sorted_split [OF sorted])
      (auto simp: nonpositive_def na_last_def split: option.splits)
  define zs where "zs = filter (\<lambda>e. \<not> nonpositive e) ys"
  have "sorted (map na_last zs)"
    unfolding zs_def by (rule sorted_filter [OF sorted])
  then have 2: "zs = filter positive zs @ filter (\<lambda>e. \<not> positive e) zs"
    by (rule sorted_split)
      (auto simp: zs_def positive_def nonpositive_def na_last_def split: option.splits)
  have fp: "filter positive zs = filter positive ys"
    unfolding zs_def by (auto simp: positive_def nonpositive_def intro!: filter_cong split: option.splits)
  have "(\<not> nonpositive e \<and> \<not> positive e) \<longleftrightarrow> e = None" for e
    by (cases e) (auto simp: positive_def nonpositive_def)
  then have fn: "filter (\<lambda>e. \<not> positive e) zs = filter (\<lambda>e. e = None) ys"
    unfolding zs_def by (simp add: conj_commute)
  have a: "map clean_elevation (filter nonpositive ys) = replicate (length (filter nonpositive es)) None"
  proof -
    have "map clean_elevation (filter nonpositive ys) = replicate (length (filter nonpositive ys)) None"
      by (rule map_const_replicate) (auto simp: nonpositive_def clean_elevation_def split: option.splits)
    also have "length (filter nonpositive ys) = length (filter nonpositive es)"
      by (simp add: ys_def filter_sort)
    finally show ?thesis .
  qed
  have b: "map clean_elevation (filter positive ys) = map Some (sort (filter (\<lambda>v. 0 < v) (present es)))"
  proof -
    have "map clean_elevation (filter positive ys) = filter positive ys"
      by (rule map_idI) (auto simp: positive_def clean_elevation_def split: option.splits)
    also have "\<dots> = sort_key na_last (filter positive es)"
      by (simp add: ys_def filter_sort)
    also have "\<dots> = map Some (sort (filter (\<lambda>v. 0 < v) (present es)))"
      by (simp add: filter_positive_present sort_key_na_last_Some)
    finally show ?thesis .
  qed
  have c: "map clean_elevation (filter (\<lambda>e. e = None) ys) = replicate (count_list es None) None"
  proof -
    have "map clean_elevation (filter (\<lambda>e. e = None) ys) = replicate (length (filter (\<lambda>e. e = None) ys)) None"
      by (rule map_const_replicate) (auto simp: clean_elevation_def)
    also have "length (filter (\<lambda>e. e = None) ys) = length (filter (\<lambda>e. e = None) es)"
      by (simp add: ys_def filter_sort)
    finally show ?thesis by (simp add: length_filter_None)
  qed
  have "ys = filter nonpositive ys @ filter positive ys @ filter (\<lambda>e. e = None) ys"
    using 1 2 unfolding zs_def [symmetric] fp fn by simp
  then have "map clean_elevation ys =
      map clean_elevation (filter nonpositive ys) @ map clean_elevation (filter positive ys)
      @ map clean_elevation (filter (\<lambda>e. e = None) ys)"
    by (metis map_append)
  then have "map clean_elevation ys =
      replicate (length (filter nonpositive es)) None
      @ map Some (sort (filter (\<lambda>v. 0 < v) (present es)))
      @ replicate (count_list es None) None"
    by (simp only: a b c)
  then show ?thesis
    by (simp only: ys_def)
qed

lemma present_append: "present (xs @ ys) = present xs @ present ys"
  by (induction xs rule: present.induct) simp_all

lemma present_replicate_None: "present (replicate n None) = []"
  by (induction n) simp_all

lemma present_map_Some: "present (map Some vs) = vs"
  by (induction vs) simp_all

lemma inj_na_last: "inj na_last"
  by (rule injI) (auto simp: na_last_def split: option.splits)

lemma sorted_unique_key:
  assumes "inj f" and "mset ys = mset xs" and "sorted (map f ys)"
  shows "ys = sort_key f xs"
proof -
  have "sort (map f xs) = map f ys"
    by (rule properties_for_sort) (simp_all add: assms)
  moreover have "sort (map f xs) = map f (sort_key f xs)"
    by (rule properties_for_sort) simp_all
  ultimately have "map f ys = map f (sort_key f xs)" by simp
  with assms(1) show ?thesis by (simp add: inj_map_eq_map)
qed

lemma sorts_by_elevation_stable_sort: "sorts_by_elevation stable_sort"
  by (simp add: sorts_by_elevation_def stable_sort_def)

lemma rows_load_data_with:
  "rows (snd (load_data_with kind (Csv f))) =
     map (\<lambda>r. r\<lparr>elevation_ft := clean_elevation (elevation_ft r)\<rparr>)
       (kind (map (\<lambda>r. r\<lparr>iso_region := map_STATES (iso_region r)\<rparr>) (filter retained (rows f))))"
  unfolding retained_def
  by (simp add: load_data_with_def Let_def select_rows_def isin_def col_def set_index_id_def
      sort_values_elevation_def select_map conj_commute)

lemma sorted_three_blocks:
  fixes ys :: "airport list"
  assumes "sorted (map (\<lambda>r. na_last (elevation_ft r)) ys)"
  shows "ys = filter (\<lambda>r. nonpositive (elevation_ft r)) ys
            @ filter (\<lambda>r. positive (elevation_ft r)) ys
            @ filter (\<lambda>r. elevation_ft r = None) ys"
proof -
  let ?k = "\<lambda>r::airport. na_last (elevation_ft r)"
  have 1: "ys = filter (\<lambda>r. nonpositive (elevation_ft r)) ys
               @ filter (\<lambda>r. \<not> nonpositive (elevation_ft r)) ys"
    by (rule sorted_split [OF assms])
      (auto simp: nonpositive_def na_last_def split: option.splits)
  define zs where "zs = filter (\<lambda>r. \<not> nonpositive (elevation_ft r)) ys"
  have "sorted (map ?k zs)"
    unfolding zs_def by (rule sorted_filter [OF assms])
  then have 2: "zs = filter (\<lambda>r. positive (elevation_ft r)) zs
                   @ filter (\<lambda>r. \<not> positive (elevation_ft r)) zs"
    by (rule sorted_split)
      (auto simp: zs_def positive_def nonpositive_def na_last_def split: option.splits)
  have fp: "filter (\<lambda>r. positive (elevation_ft r)) zs = filter (\<lambda>r. positive (elevation_ft r)) ys"
    unfolding zs_def
    by (auto simp: positive_def nonpositive_def intro!: filter_cong split: option.splits)
  have "(\<not> nonpositive e \<and> \<not> positive e) \<longleftrightarrow> e = None" for e
    by (cases e) (auto simp: positive_def nonpositive_def)
  then have fn: "filter (\<lambda>r. \<not> positive (elevation_ft r)) zs = filter (\<lambda>r. elevation_ft r = None) ys"
    unfolding zs_def by (simp add: conj_commute)
  from 1 2 show ?thesis
    unfolding zs_def [symmetric] fp fn by simp
qed

lemma take_drop_blocks:
  "take (length A) (A @ B @ C) = A"
  "take (length B) (drop (length A) (A @ B @ C)) = B"
  "drop (length A + length B) (A @ B @ C) = C"
  by simp_all

lemma length_filter_mset:
  "mset ys = mset xs \<Longrightarrow> length (filter P ys) = length (filter P xs)"
  by (metis mset_filter size_mset)

lemma block_mset:
  assumes "mset ys = mset (map (\<lambda>r. r\<lparr>iso_region := map_STATES (iso_region r)\<rparr>) (filter retained rs))"
  shows "mset (map (\<lambda>r. r\<lparr>elevation_ft := clean_elevation (elevation_ft r)\<rparr>)
                 (filter (\<lambda>r. Q (elevation_ft r)) ys))
         = mset (map loaded_row (filter (\<lambda>r. retained r \<and> Q (elevation_ft r)) rs))"
proof -
  let ?rn = "\<lambda>r::airport. r\<lparr>iso_region := map_STATES (iso_region r)\<rparr>"
  let ?cl = "\<lambda>r::airport. r\<lparr>elevation_ft := clean_elevation (elevation_ft r)\<rparr>"
  have "mset (filter (\<lambda>r. Q (elevation_ft r)) ys)
      = mset (filter (\<lambda>r. Q (elevation_ft r)) (map ?rn (filter retained rs)))"
    using assms by (simp only: mset_filter)
  also have "filter (\<lambda>r. Q (elevation_ft r)) (map ?rn (filter retained rs))
      = map ?rn (filter (\<lambda>r. retained r \<and> Q (elevation_ft r)) rs)"
    by (simp add: filter_map comp_def)
  finally have "mset (map ?cl (filter (\<lambda>r. Q (elevation_ft r)) ys))
      = mset (map ?cl (map ?rn (filter (\<lambda>r. retained r \<and> Q (elevation_ft r)) rs)))"
    by (simp only: mset_map)
  also have "map ?cl (map ?rn (filter (\<lambda>r. retained r \<and> Q (elevation_ft r)) rs))
      = map loaded_row (filter (\<lambda>r. retained r \<and> Q (elevation_ft r)) rs)"
    by (simp add: loaded_row_def)
  finally show ?thesis .
qed

lemma block_length:
  assumes "mset ys = mset (map (\<lambda>r. r\<lparr>iso_region := map_STATES (iso_region r)\<rparr>) (filter retained (rows f)))"
  shows "length (filter (\<lambda>r. Q (elevation_ft r)) ys) = length (filter Q (stored_elevations f))"
proof -
  have "length (filter (\<lambda>r. Q (elevation_ft r)) ys)
      = length (filter (\<lambda>r. Q (elevation_ft r))
          (map (\<lambda>r. r\<lparr>iso_region := map_STATES (iso_region r)\<rparr>) (filter retained (rows f))))"
    by (rule length_filter_mset [OF assms])
  also have "\<dots> = length (filter Q (stored_elevations f))"
    by (simp add: stored_elevations_def filter_map comp_def)
  finally show ?thesis .
qed

lemma elevations_load_data_with:
  assumes "sorts_by_elevation kind"
  shows "map elevation_ft (rows (snd (load_data_with kind (Csv f)))) =
     map clean_elevation (sort_key na_last (stored_elevations f))"
proof -
  define xs where "xs = map (\<lambda>r. r\<lparr>iso_region := map_STATES (iso_region r)\<rparr>) (filter retained (rows f))"
  have m: "mset (kind xs) = mset xs" and s: "sorted (map (\<lambda>r. na_last (elevation_ft r)) (kind xs))"
    using assms by (simp_all add: sorts_by_elevation_def)
  have e: "map elevation_ft xs = stored_elevations f"
    by (simp add: xs_def stored_elevations_def comp_def)
  have "mset (map elevation_ft (kind xs)) = mset (stored_elevations f)"
    using m by (simp flip: e)
  moreover have "sorted (map na_last (map elevation_ft (kind xs)))"
    using s by (simp add: comp_def)
  ultimately have "map elevation_ft (kind xs) = sort_key na_last (stored_elevations f)"
    by (intro sorted_unique_key inj_na_last)
  then have "map clean_elevation (map elevation_ft (kind xs))
      = map clean_elevation (sort_key na_last (stored_elevations f))"
    by simp
  moreover have "map elevation_ft (rows (snd (load_data_with kind (Csv f))))
      = map clean_elevation (map elevation_ft (kind xs))"
    by (simp add: rows_load_data_with comp_def xs_def)
  ultimately show ?thesis by simp
qed

lemma na_last_reversed:
  "na_last a \<le> na_last b \<longleftrightarrow> na_first_descending b \<le> na_first_descending a"
  by (cases a; cases b) (simp_all add: na_last_def na_first_descending_def)

lemma sorts_by_elevation_reversing_sort: "sorts_by_elevation reversing_sort"
proof -
  have "sorted (map (\<lambda>r. na_last (elevation_ft r)) (reversing_sort xs))" for xs
  proof -
    let ?zs = "sort_key (\<lambda>r. na_first_descending (elevation_ft r)) xs"
    have "sorted_wrt (\<lambda>x y. na_first_descending (elevation_ft x) \<le> na_first_descending (elevation_ft y)) ?zs"
      using sorted_sort_key [of "\<lambda>r. na_first_descending (elevation_ft r)" xs]
      by (simp add: sorted_map)
    then have "sorted_wrt (\<lambda>x y. na_last (elevation_ft y) \<le> na_last (elevation_ft x)) ?zs"
      by (rule sorted_wrt_mono_rel [rotated]) (simp add: na_last_reversed)
    then show ?thesis
      by (simp add: reversing_sort_def sorted_map sorted_wrt_rev)
  qed
  then show ?thesis
    by (simp add: sorts_by_elevation_def) (simp add: reversing_sort_def)
qed

lemma rows_example_ties_stable:
  "rows (snd (load_data_with stable_sort (Csv example_ties_csv))) =
     [example_airport 3 ''small_airport'' None ''Maine'' ''no'',
      example_airport 4 ''small_airport'' None ''Massachusetts'' ''no'',
      example_airport 1 ''small_airport'' (Some 50) ''Maine'' ''no'',
      example_airport 2 ''small_airport'' (Some 50) ''Vermont'' ''no'']"
  by (simp add: load_data_with_def stable_sort_def Let_def example_ties_csv_def example_airport_def
      set_index_id_def select_rows_def isin_def cell_isin_def col_def STATES_keys_def STATES_def
      airport_types_def map_STATES_def sort_values_elevation_def na_last_def clean_elevation_def)

lemma rows_example_ties_reversing:
  "rows (snd (load_data_with reversing_sort (Csv example_ties_csv))) =
     [example_airport 4 ''small_airport'' None ''Massachusetts'' ''no'',
      example_airport 3 ''small_airport'' None ''Maine'' ''no'',
      example_airport 2 ''small_airport'' (Some 50) ''Vermont'' ''no'',
      example_airport 1 ''small_airport'' (Some 50) ''Maine'' ''no'']"
  by (simp add: load_data_with_def reversing_sort_def Let_def example_ties_csv_def example_airport_def
      set_index_id_def select_rows_def isin_def cell_isin_def col_def STATES_keys_def STATES_def
      airport_types_def map_STATES_def sort_values_elevation_def na_first_descending_def
      clean_elevation_def)

text \<open>
  Claim C4, as the specification states it: the loaded table is non-decreasing in
  elevation with all the missing markers at one place, first or last. The program sorts
  before it cleans: the rows whose stored elevation is not positive sort first and become
  missing afterwards, the rows without a stored elevation sort last. In the example file
  the loaded table has a missing marker before its present elevations and another after
  them.
\<close>

theorem load_data_sort_order_counterexample:
  "map elevation_ft (rows (snd (load_data (Csv example_csv)))) = [None, Some 20, Some 1400, None]
   \<and> \<not> missing_first (map elevation_ft (rows (snd (load_data (Csv example_csv)))))
   \<and> \<not> missing_last (map elevation_ft (rows (snd (load_data (Csv example_csv)))))"
  by (simp add: load_data_example example_loaded_def example_airport_def missing_first_def
      missing_last_def)

text \<open>
  Claim C4, amended: for every file that is read, and whatever order the sort gives to
  rows of equal elevation (for every routine that \<open>sorts_by_elevation\<close>, the stable one of
  \<open>load_data\<close> included), the loaded table is made of three blocks. First come the
  records whose stored elevation is a non-positive number, all of them and only them:
  they carry the missing marker and stand before every present elevation. Then come the
  records whose stored elevation is positive, in non-decreasing order of elevation. Last
  come the records without a stored elevation, all of them and only them, carrying the
  missing marker. So the present elevations of the loaded table are non-decreasing, and
  the missing markers stand in two places.
\<close>

theorem load_data_sort_order:
  assumes "sorts_by_elevation kind"
  shows
    "mset (take (length (filter nonpositive (stored_elevations f)))
            (rows (snd (load_data_with kind (Csv f)))))
       = mset (map loaded_row (filter (\<lambda>r. retained r \<and> nonpositive (elevation_ft r)) (rows f)))
     \<and> mset (take (length (filter positive (stored_elevations f)))
              (drop (length (filter nonpositive (stored_elevations f)))
                (rows (snd (load_data_with kind (Csv f))))))
       = mset (map loaded_row (filter (\<lambda>r. retained r \<and> positive (elevation_ft r)) (rows f)))
     \<and> mset (drop (length (filter nonpositive (stored_elevations f))
                     + length (filter positive (stored_elevations f)))
              (rows (snd (load_data_with kind (Csv f)))))
       = mset (map loaded_row (filter (\<lambda>r. retained r \<and> elevation_ft r = None) (rows f)))
     \<and> map elevation_ft (rows (snd (load_data_with kind (Csv f)))) =
         replicate (length (filter nonpositive (stored_elevations f))) None
         @ map Some (sort (filter (\<lambda>v. 0 < v) (present (stored_elevations f))))
         @ replicate (count_list (stored_elevations f) None) None
     \<and> sorted (present (map elevation_ft (rows (snd (load_data_with kind (Csv f))))))"
proof -
  let ?rn = "\<lambda>r::airport. r\<lparr>iso_region := map_STATES (iso_region r)\<rparr>"
  let ?cl = "\<lambda>r::airport. r\<lparr>elevation_ft := clean_elevation (elevation_ft r)\<rparr>"
  define ys where "ys = kind (map ?rn (filter retained (rows f)))"
  define A where "A = map ?cl (filter (\<lambda>r. nonpositive (elevation_ft r)) ys)"
  define B where "B = map ?cl (filter (\<lambda>r. positive (elevation_ft r)) ys)"
  define C where "C = map ?cl (filter (\<lambda>r. elevation_ft r = None) ys)"
  have m: "mset ys = mset (map ?rn (filter retained (rows f)))"
    and s: "sorted (map (\<lambda>r. na_last (elevation_ft r)) ys)"
    using assms by (simp_all add: sorts_by_elevation_def ys_def)
  have out: "rows (snd (load_data_with kind (Csv f))) = A @ B @ C"
  proof -
    have "map ?cl ys = A @ B @ C"
      unfolding A_def B_def C_def map_append [symmetric]
      using sorted_three_blocks [OF s] by simp
    then show ?thesis by (simp add: rows_load_data_with ys_def)
  qed
  have lA: "length (filter nonpositive (stored_elevations f)) = length A"
    unfolding A_def using block_length [OF m, of nonpositive] by simp
  have lB: "length (filter positive (stored_elevations f)) = length B"
    unfolding B_def using block_length [OF m, of positive] by simp
  have mA: "mset A = mset (map loaded_row (filter (\<lambda>r. retained r \<and> nonpositive (elevation_ft r)) (rows f)))"
    unfolding A_def by (rule block_mset [OF m])
  have mB: "mset B = mset (map loaded_row (filter (\<lambda>r. retained r \<and> positive (elevation_ft r)) (rows f)))"
    unfolding B_def by (rule block_mset [OF m])
  have mC: "mset C = mset (map loaded_row (filter (\<lambda>r. retained r \<and> elevation_ft r = None) (rows f)))"
    unfolding C_def by (rule block_mset [OF m, of "\<lambda>e. e = None"])
  have eq: "map elevation_ft (rows (snd (load_data_with kind (Csv f)))) =
         replicate (length (filter nonpositive (stored_elevations f))) None
         @ map Some (sort (filter (\<lambda>v. 0 < v) (present (stored_elevations f))))
         @ replicate (count_list (stored_elevations f) None) None"
    by (simp only: elevations_load_data_with [OF assms] cleaned_sorted_cells)
  have "present (map elevation_ft (rows (snd (load_data_with kind (Csv f))))) =
      sort (filter (\<lambda>v. 0 < v) (present (stored_elevations f)))"
    by (simp only: eq present_append present_replicate_None present_map_Some append_Nil append_Nil2)
  then have so: "sorted (present (map elevation_ft (rows (snd (load_data_with kind (Csv f))))))"
    by simp
  show ?thesis
    unfolding lA lB out take_drop_blocks
    using mA mB mC eq [unfolded lA out] so [unfolded out] by (intro conjI)
qed

theorem load_data_sort_order_witness:
  "sorts_by_elevation stable_sort
   \<and> load_data (Csv example_csv) = load_data_with stable_sort (Csv example_csv)
   \<and> rows (snd (load_data_with stable_sort (Csv example_csv))) =
       [example_airport 4 ''small_airport'' None ''Massachusetts'' ''no'',
        example_airport 1 ''large_airport'' (Some 20) ''Massachusetts'' ''yes'',
        example_airport 6 ''medium_airport'' (Some 1400) ''Maine'' ''no'',
        example_airport 2 ''small_airport'' None ''Vermont'' ''no'']
   \<and> length (filter nonpositive (stored_elevations example_csv)) = 1
   \<and> length (filter positive (stored_elevations example_csv)) = 2
   \<and> map loaded_row (filter (\<lambda>r. retained r \<and> nonpositive (elevation_ft r)) (rows example_csv))
       = [example_airport 4 ''small_airport'' None ''Massachusetts'' ''no'']
   \<and> map loaded_row (filter (\<lambda>r. retained r \<and> positive (elevation_ft r)) (rows example_csv))
       = [example_airport 1 ''large_airport'' (Some 20) ''Massachusetts'' ''yes'',
          example_airport 6 ''medium_airport'' (Some 1400) ''Maine'' ''no'']
   \<and> map loaded_row (filter (\<lambda>r. retained r \<and> elevation_ft r = None) (rows example_csv))
       = [example_airport 2 ''small_airport'' None ''Vermont'' ''no'']
   \<and> map elevation_ft (rows (snd (load_data_with stable_sort (Csv example_csv))))
       = [None, Some 20, Some 1400, None]
   \<and> sorts_by_elevation reversing_sort
   \<and> map airport_id (rows (snd (load_data_with stable_sort (Csv example_ties_csv)))) = [3, 4, 1, 2]
   \<and> map airport_id (rows (snd (load_data_with reversing_sort (Csv example_ties_csv)))) = [4, 3, 2, 1]
   \<and> length (filter nonpositive (stored_elevations example_ties_csv)) = 2
   \<and> length (filter positive (stored_elevations example_ties_csv)) = 2
   \<and> map airport_id (map loaded_row
         (filter (\<lambda>r. retained r \<and> nonpositive (elevation_ft r)) (rows example_ties_csv))) = [3, 4]
   \<and> map airport_id (map loaded_row
         (filter (\<lambda>r. retained r \<and> positive (elevation_ft r)) (rows example_ties_csv))) = [1, 2]
   \<and> map elevation_ft (rows (snd (load_data_with reversing_sort (Csv example_ties_csv))))
       = [None, None, Some 50, Some 50]"
proof -
  have l: "load_data_with stable_sort (Csv example_csv) = ([], example_loaded)"
    using load_data_example by (simp add: load_data_def)
  have r: "rows example_loaded =
       [example_airport 4 ''small_airport'' None ''Massachusetts'' ''no'',
        example_airport 1 ''large_airport'' (Some 20) ''Massachusetts'' ''yes'',
        example_airport 6 ''medium_airport'' (Some 1400) ''Maine'' ''no'',
        example_airport 2 ''small_airport'' None ''Vermont'' ''no'']"
    by (simp add: example_loaded_def)
  have s: "stored_elevations example_csv = [Some 20, None, Some (-5), Some 1400]"
    "stored_elevations example_ties_csv = [Some 50, Some 50, Some (-5), Some (-5)]"
    by (simp_all add: stored_elevations_def example_csv_def example_ties_csv_def example_airport_def
        retained_def cell_isin_def STATES_keys_def STATES_def airport_types_def)
  have a: "map loaded_row (filter (\<lambda>r. retained r \<and> nonpositive (elevation_ft r)) (rows example_csv))
       = [example_airport 4 ''small_airport'' None ''Massachusetts'' ''no'']"
    "map loaded_row (filter (\<lambda>r. retained r \<and> positive (elevation_ft r)) (rows example_csv))
       = [example_airport 1 ''large_airport'' (Some 20) ''Massachusetts'' ''yes'',
          example_airport 6 ''medium_airport'' (Some 1400) ''Maine'' ''no'']"
    "map loaded_row (filter (\<lambda>r. retained r \<and> elevation_ft r = None) (rows example_csv))
       = [example_airport 2 ''small_airport'' None ''Vermont'' ''no'']"
    by (simp_all add: example_csv_def example_airport_def retained_def cell_isin_def
        STATES_keys_def STATES_def airport_types_def nonpositive_def positive_def loaded_row_def
        map_STATES_def clean_elevation_def)
  have b: "map airport_id (map loaded_row
         (filter (\<lambda>r. retained r \<and> nonpositive (elevation_ft r)) (rows example_ties_csv))) = [3, 4]"
    "map airport_id (map loaded_row
         (filter (\<lambda>r. retained r \<and> positive (elevation_ft r)) (rows example_ties_csv))) = [1, 2]"
    by (simp_all add: example_ties_csv_def example_airport_def retained_def cell_isin_def
        STATES_keys_def STATES_def airport_types_def nonpositive_def positive_def loaded_row_def)
  have n: "length (filter nonpositive (stored_elevations example_csv)) = 1"
    "length (filter positive (stored_elevations example_csv)) = 2"
    "length (filter nonpositive (stored_elevations example_ties_csv)) = 2"
    "length (filter positive (stored_elevations example_ties_csv)) = 2"
    by (simp_all add: s nonpositive_def positive_def)
  have t: "map airport_id (rows (snd (load_data_with stable_sort (Csv example_ties_csv)))) = [3, 4, 1, 2]"
    "map airport_id (rows (snd (load_data_with reversing_sort (Csv example_ties_csv)))) = [4, 3, 2, 1]"
    "map elevation_ft (rows (snd (load_data_with reversing_sort (Csv example_ties_csv))))
       = [None, None, Some 50, Some 50]"
    by (simp_all add: rows_example_ties_stable rows_example_ties_reversing example_airport_def)
  have e: "map elevation_ft (rows example_loaded) = [None, Some 20, Some 1400, None]"
    by (simp add: r example_airport_def)
  have "sorts_by_elevation stable_sort" "sorts_by_elevation reversing_sort"
    by (rule sorts_by_elevation_stable_sort, rule sorts_by_elevation_reversing_sort)
  moreover note load_data_sort_order [OF sorts_by_elevation_stable_sort, of example_csv]
    load_data_sort_order [OF sorts_by_elevation_reversing_sort, of example_ties_csv]
  ultimately show ?thesis
    unfolding l snd_conv
    by (intro conjI r n a b t e) (simp_all add: load_data_example l)
qed

section \<open>Aggregation\<close>

lemma fold_mean_step:
  "fold mean_step cells (s, n) = (s + sum_list (present cells), n + length (present cells))"
  by (induction cells arbitrary: s n rule: present.induct) simp_all

lemma mean_present: "mean cells = arithmetic_mean (present cells)"
  by (simp add: mean_def arithmetic_mean_def fold_mean_step)

lemma present_all_None: "\<forall>c \<in> set cells. c = None \<Longrightarrow> present cells = []"
  by (induction cells rule: present.induct) simp_all

lemma map_of_groupby_mean:
  "k \<in> set (group_keys t) \<Longrightarrow>
     map_of (groupby_mean t) k = Some (mean (map elevation_ft (group_rows t k)))"
  unfolding groupby_mean_def by (induction "group_keys t") (auto simp: map_of_map_restrict)

text \<open>
  Claim C6: for every table, the mean elevation that \<^verbatim>\<open>groupby("iso_region").mean()\<close>
  gives for a region (in \<open>create_elevation_chart\<close> and in \<open>create_radar_chart\<close>) is the
  arithmetic mean of the present elevations of the region's rows only: rows with a
  missing elevation add nothing to the sum and nothing to the count. For a region all of
  whose rows have a missing elevation the mean is the missing marker, not zero.
\<close>

theorem groupby_mean_skips_missing:
  "groupby_mean t =
      map (\<lambda>k. (k, arithmetic_mean (present (map elevation_ft (group_rows t k))))) (group_keys t)
   \<and> (\<forall>k \<in> set (group_keys t).
        (\<forall>r \<in> set (group_rows t k). elevation_ft r = None) \<longrightarrow>
          map_of (groupby_mean t) k = Some None)"
proof (intro conjI ballI impI)
  show "groupby_mean t =
      map (\<lambda>k. (k, arithmetic_mean (present (map elevation_ft (group_rows t k))))) (group_keys t)"
    by (simp add: groupby_mean_def mean_present)
next
  fix k
  assume k: "k \<in> set (group_keys t)" and "\<forall>r \<in> set (group_rows t k). elevation_ft r = None"
  then have "present (map elevation_ft (group_rows t k)) = []"
    by (intro present_all_None) simp
  then show "map_of (groupby_mean t) k = Some None"
    by (simp add: map_of_groupby_mean [OF k] mean_present arithmetic_mean_def)
qed

theorem groupby_mean_skips_missing_witness:
  "groupby_mean example_loaded =
      [(''Maine'', Some 1400), (''Massachusetts'', Some 20), (''Vermont'', None)]
   \<and> map elevation_ft (group_rows example_loaded ''Massachusetts'') = [None, Some 20]
   \<and> ''Vermont'' \<in> set (group_keys example_loaded)
   \<and> map elevation_ft (group_rows example_loaded ''Vermont'') = [None]
   \<and> map_of (groupby_mean example_loaded) ''Vermont'' = Some None"
  using groupby_mean_skips_missing [of example_loaded]
  by (simp add: groupby_mean_def group_keys_def group_rows_def example_loaded_def
      example_airport_def mean_def arithmetic_mean_def)

lemma length_filter_region:
  "length (filter (\<lambda>r. iso_region r = Some k) xs) = count_list (List.map_filter iso_region xs) k"
  by (induction xs) (auto simp: List.map_filter_simps split: option.splits)

lemma length_map_filter_present:
  "\<forall>r \<in> set xs. iso_region r \<noteq> None \<Longrightarrow> length (List.map_filter iso_region xs) = length xs"
  by (induction xs) (auto simp: List.map_filter_simps split: option.splits)

lemma sum_group_sizes:
  assumes "\<forall>r \<in> set (rows t). iso_region r \<noteq> None"
  shows "sum_list (map snd (groupby_size t)) = len t"
proof -
  define ks where "ks = List.map_filter iso_region (rows t)"
  have "sum_list (map snd (groupby_size t)) = sum_list (map (count_list ks) (group_keys t))"
    by (simp add: groupby_size_def group_rows_def comp_def length_filter_region ks_def)
  also have "\<dots> = sum (count_list ks) (set (group_keys t))"
    by (rule sum_list_distinct_conv_sum_set) (simp add: group_keys_def)
  also have "set (group_keys t) = set ks"
    by (simp add: group_keys_def ks_def)
  also have "sum (count_list ks) (set ks) = length ks"
    by (rule sum_count_set) simp_all
  also have "length ks = len t"
    unfolding ks_def len_def by (rule length_map_filter_present [OF assms])
  finally show ?thesis .
qed

lemma get_value_counts: "get (value_counts cells) k 0 = count_list cells (Some k)"
  by (simp add: get_def value_counts_def count_list_0_iff)

lemma count_three_types:
  assumes "\<forall>c \<in> set cells. cell_isin c airport_types"
  shows "count_list cells (Some ''large_airport'') + count_list cells (Some ''medium_airport'')
         + count_list cells (Some ''small_airport'') = length cells"
  using assms
  by (induction cells) (auto simp: cell_isin_Some airport_types_def)

lemma filter_data_regions_present:
  "\<forall>r \<in> set (rows (fst (filter_data t rg c ty sv))). iso_region r \<noteq> None"
  by (auto simp: rows_filter_data cell_isin_Some)

lemma load_data_types:
  "\<forall>r \<in> set (rows (snd (load_data src))). cell_isin (type r) airport_types"
proof (cases src)
  case FileNotFoundError
  then show ?thesis by (simp add: load_data_def load_data_with_def stable_sort_def DataFrame_def)
next
  case (Csv f)
  show ?thesis unfolding Csv set_rows_load_data by auto
qed

lemma length_filter_count_list:
  "length (filter (\<lambda>r. f r = c) xs) = count_list (map f xs) c"
  by (induction xs) simp_all

lemma length_group_rows:
  "length (group_rows t k) = count_list (col iso_region t) (Some k)"
  by (simp add: group_rows_def col_def length_filter_count_list)

lemma map_fst_groupby_size: "map fst (groupby_size t) = group_keys t"
  by (simp add: groupby_size_def comp_def)

lemma set_map_filter_Some: "set (List.map_filter f xs) = {y. Some y \<in> f ` set xs}"
  by (induction xs) (auto split: option.splits)

lemma set_group_keys: "set (group_keys t) = {k. Some k \<in> set (col iso_region t)}"
  by (simp add: group_keys_def col_def set_map_filter_Some)

lemma display_metrics_counts:
  "display_metrics d =
     [St_markdown ''### Key Metrics'',
      St_write_count ''Total Airports'' (len d),
      St_write_count ''Large Airports'' (count_list (col type d) (Some ''large_airport'')),
      St_write_count ''Medium Airports'' (count_list (col type d) (Some ''medium_airport'')),
      St_write_count ''Small Airports'' (count_list (col type d) (Some ''small_airport''))]"
  by (simp add: display_metrics_def Let_def get_value_counts)

lemma load_data_example_groups: "load_data (Csv example_groups) = ([], example_groups_loaded)"
  by (simp add: load_data_def load_data_with_def stable_sort_def Let_def example_groups_def
      example_groups_loaded_def example_airport_def
      set_index_id_def select_rows_def isin_def cell_isin_def col_def STATES_keys_def STATES_def
      airport_types_def map_STATES_def sort_values_elevation_def na_last_def clean_elevation_def)

lemma filter_data_example_groups:
  "filter_data example_groups_loaded STATES_values 2000 airport_types [''yes'', ''no'']
     = (example_groups_loaded, 4)"
  by (simp add: filter_data_def Let_def example_groups_loaded_def example_airport_def len_def
      select_rows_def isin_def cell_isin_def col_def STATES_values_def STATES_def
      airport_types_def series_and_def le_scalar_def cell_le_def)

text \<open>
  Claim C5: for every filtered set, \<^verbatim>\<open>groupby("iso_region").size()\<close> has one entry for each
  region name that occurs in the set, the entry of a region is the number of rows of the
  set with that region, and these per-region counts add up to the count of the filtered
  set. For every filtered set of a loaded table, the count that \<open>display_metrics\<close> reads
  for an airport type is the number of rows of that type, the counts of the three airport
  types add up to the count of the filtered set, and \<open>display_metrics\<close> writes that
  total and these three counts.
\<close>

theorem aggregation_consistency:
  "(let fd = fst (filter_data t regions elevation types services) in
      distinct (map fst (groupby_size fd))
      \<and> set (map fst (groupby_size fd)) = {k. Some k \<in> set (col iso_region fd)}
      \<and> (\<forall>(k, c) \<in> set (groupby_size fd). c = count_list (col iso_region fd) (Some k))
      \<and> sum_list (map snd (groupby_size fd)) = len fd
      \<and> len fd = snd (filter_data t regions elevation types services))
   \<and> (let fd = fst (filter_data (snd (load_data src)) regions elevation types services) in
      (\<forall>k. get (value_counts (col type fd)) k 0 = count_list (col type fd) (Some k))
      \<and> get (value_counts (col type fd)) ''large_airport'' 0
        + get (value_counts (col type fd)) ''medium_airport'' 0
        + get (value_counts (col type fd)) ''small_airport'' 0 = len fd
      \<and> display_metrics fd =
          [St_markdown ''### Key Metrics'',
           St_write_count ''Total Airports'' (len fd),
           St_write_count ''Large Airports'' (count_list (col type fd) (Some ''large_airport'')),
           St_write_count ''Medium Airports'' (count_list (col type fd) (Some ''medium_airport'')),
           St_write_count ''Small Airports'' (count_list (col type fd) (Some ''small_airport''))]
      \<and> len fd = snd (filter_data (snd (load_data src)) regions elevation types services))"
proof -
  define fd where "fd = fst (filter_data t regions elevation types services)"
  define fl where "fl = fst (filter_data (snd (load_data src)) regions elevation types services)"
  have 1: "distinct (map fst (groupby_size fd))"
    by (simp add: map_fst_groupby_size group_keys_def)
  have 2: "set (map fst (groupby_size fd)) = {k. Some k \<in> set (col iso_region fd)}"
    by (simp only: map_fst_groupby_size set_group_keys)
  have 3: "\<forall>(k, c) \<in> set (groupby_size fd). c = count_list (col iso_region fd) (Some k)"
    by (auto simp: groupby_size_def length_group_rows)
  have 4: "sum_list (map snd (groupby_size fd)) = len fd"
    unfolding fd_def by (rule sum_group_sizes [OF filter_data_regions_present])
  have 5: "len fd = snd (filter_data t regions elevation types services)"
    by (simp add: fd_def len_def snd_filter_data)
  have 6: "\<forall>k. get (value_counts (col type fl)) k 0 = count_list (col type fl) (Some k)"
    by (simp add: get_value_counts)
  have "\<forall>c \<in> set (col type fl). cell_isin c airport_types"
    using load_data_types [of src] by (auto simp: fl_def col_def rows_filter_data)
  then have "count_list (col type fl) (Some ''large_airport'')
      + count_list (col type fl) (Some ''medium_airport'')
      + count_list (col type fl) (Some ''small_airport'') = length (col type fl)"
    by (rule count_three_types)
  then have 7: "get (value_counts (col type fl)) ''large_airport'' 0
        + get (value_counts (col type fl)) ''medium_airport'' 0
        + get (value_counts (col type fl)) ''small_airport'' 0 = len fl"
    by (simp add: get_value_counts len_def col_def)
  have 8: "len fl = snd (filter_data (snd (load_data src)) regions elevation types services)"
    by (simp add: fl_def len_def snd_filter_data)
  from 1 2 3 4 5 6 7 8 show ?thesis
    unfolding Let_def fd_def [symmetric] fl_def [symmetric]
    by (intro conjI display_metrics_counts)
qed

theorem aggregation_consistency_witness:
  "fst (filter_data (snd (load_data (Csv example_groups))) STATES_values 2000 airport_types [''yes'', ''no''])
     = example_groups_loaded
   \<and> col iso_region example_groups_loaded
       = [Some ''Massachusetts'', Some ''Massachusetts'', Some ''Vermont'', Some ''Maine'']
   \<and> groupby_size example_groups_loaded = [(''Maine'', 1), (''Massachusetts'', 2), (''Vermont'', 1)]
   \<and> (''Massachusetts'', 2) \<in> set (groupby_size example_groups_loaded)
   \<and> count_list (col iso_region example_groups_loaded) (Some ''Massachusetts'') = 2
   \<and> sum_list (map snd (groupby_size example_groups_loaded)) = 4
   \<and> snd (filter_data (snd (load_data (Csv example_groups))) STATES_values 2000 airport_types [''yes'', ''no'']) = 4
   \<and> get (value_counts (col type example_groups_loaded)) ''large_airport'' 0 = 1
   \<and> get (value_counts (col type example_groups_loaded)) ''medium_airport'' 0 = 1
   \<and> get (value_counts (col type example_groups_loaded)) ''small_airport'' 0 = 2
   \<and> display_metrics example_groups_loaded =
       [St_markdown ''### Key Metrics'', St_write_count ''Total Airports'' 4,
        St_write_count ''Large Airports'' 1, St_write_count ''Medium Airports'' 1,
        St_write_count ''Small Airports'' 2]"
proof -
  have g: "groupby_size example_groups_loaded = [(''Maine'', 1), (''Massachusetts'', 2), (''Vermont'', 1)]"
    by (simp add: groupby_size_def group_keys_def group_rows_def List.map_filter_simps
        example_groups_loaded_def example_airport_def)
  have c: "col iso_region example_groups_loaded
       = [Some ''Massachusetts'', Some ''Massachusetts'', Some ''Vermont'', Some ''Maine'']"
    "col type example_groups_loaded
       = [Some ''large_airport'', Some ''small_airport'', Some ''small_airport'', Some ''medium_airport'']"
    "len example_groups_loaded = 4"
    by (simp_all add: col_def len_def example_groups_loaded_def example_airport_def)
  from aggregation_consistency [of example_groups_loaded STATES_values 2000 airport_types
      "[''yes'', ''no'']" "Csv example_groups"]
  show ?thesis
    by (simp add: load_data_example_groups filter_data_example_groups g c get_value_counts
        display_metrics_counts)
qed

section \<open>The main pipeline\<close>

lemma main_empty:
  "frame_empty (snd (load_data src)) \<Longrightarrow>
     main src w = ([St_title, St_sidebar_header, St_sidebar_markdown, St_sidebar_write]
                     @ fst (load_data src), [Load_data])"
  by (cases "load_data src") (simp add: main_def Let_def)

lemma main_nonempty:
  "\<not> frame_empty (snd (load_data src)) \<Longrightarrow>
     snd (main src w) = [Load_data, Filter_data, Create_map, Create_elevation_chart,
                          Create_radar_chart, Create_boxplot, Display_metrics]"
  by (cases "load_data src") (simp add: main_def Let_def split: prod.splits)

text \<open>A run of \<open>main\<close> on the example file, with the defaults of the sidebar.\<close>

lemma main_example:
  "main (Csv example_csv) example_widgets =
     ([St_title, St_sidebar_header, St_sidebar_markdown, St_sidebar_write,
       St_sidebar_widget ''Regions'', St_sidebar_widget ''Maximum Elevation (ft)'',
       St_sidebar_widget ''Airport Types'', St_sidebar_widget ''Only Show Commercial Airports'',
       St_subheader, St_write ''Explore the data through the following visualizations:'',
       St_markdown ''#### Airport Map'',
       St_plotly_chart (Scatter_geo (fst (filter_data example_loaded STATES_values 2000 airport_types [''yes'', ''no'']))),
       St_markdown ''#### Average Elevation by State'',
       St_plotly_chart (Bar [(''Maine'', Some 1400), (''Massachusetts'', Some 20)]),
       St_markdown ''#### Airport Distribution'',
       St_plotly_chart (Scatterpolar [(''Maine'', 1, Some 1400), (''Massachusetts'', 1, Some 20)]),
       St_markdown ''#### Elevation Spread'',
       St_plotly_chart (Box (fst (filter_data example_loaded STATES_values 2000 airport_types [''yes'', ''no'']))),
       St_markdown ''### Key Metrics'',
       St_write_count ''Total Airports'' 2,
       St_write_count ''Large Airports'' 1,
       St_write_count ''Medium Airports'' 1,
       St_write_count ''Small Airports'' 0],
      [Load_data, Filter_data, Create_map, Create_elevation_chart, Create_radar_chart,
       Create_boxplot, Display_metrics])"
proof -
  have e: "\<not> frame_empty example_loaded"
    by (simp add: frame_empty_def example_loaded_def)
  have w: "selected_regions example_widgets = STATES_values"
    "real_of_int (max_elevation example_widgets) = 2000"
    "selected_types example_widgets = airport_types"
    "commercial_only example_widgets = False"
    by (simp_all add: example_widgets_def)
  show ?thesis
    by (simp add: main_def Let_def load_data_example e w filter_data_example)
      (simp add: create_map_def create_elevation_chart_def create_radar_chart_def
        create_boxplot_def display_metrics_def groupby_mean_def groupby_size_def group_keys_def
        group_rows_def merge_on_region_def mean_def len_def col_def get_def value_counts_def
        example_loaded_def example_airport_def)
qed

text \<open>
  Claim C8: when the file is absent, \<open>load_data\<close> writes the file-not-found error to the
  page and returns the empty data frame of \<^verbatim>\<open>pd.DataFrame()\<close>; \<open>main\<close> then calls
  nothing but \<open>load_data\<close> (no filter, no aggregation, no chart) and ends normally, the
  page holding the header and the error message.
\<close>

theorem missing_source:
  "load_data FileNotFoundError =
      ([St_error ''File not found. Please make sure 'new_england_airports.csv' is in the correct directory.''],
       DataFrame)
   \<and> rows DataFrame = [] \<and> columns DataFrame = [] \<and> frame_empty DataFrame
   \<and> main FileNotFoundError w =
      ([St_title, St_sidebar_header, St_sidebar_markdown, St_sidebar_write,
        St_error ''File not found. Please make sure 'new_england_airports.csv' is in the correct directory.''],
       [Load_data])"
proof -
  have l: "load_data FileNotFoundError =
      ([St_error ''File not found. Please make sure 'new_england_airports.csv' is in the correct directory.''],
       DataFrame)"
    by (simp add: load_data_def load_data_with_def stable_sort_def)
  have e: "frame_empty DataFrame" by (simp add: frame_empty_def DataFrame_def)
  have "main FileNotFoundError w = ([St_title, St_sidebar_header, St_sidebar_markdown, St_sidebar_write]
                     @ fst (load_data FileNotFoundError), [Load_data])"
    by (rule main_empty) (simp add: l e)
  with l e show ?thesis by (simp add: DataFrame_def)
qed

text \<open>
  Claim C10, as stated: \<open>load_data\<close> returns the same empty-table value when the file is
  missing and when the file is read but no row is retained. The two values differ: the
  first has no column, the second keeps the columns of the file.
\<close>

theorem load_failure_indistinguishable_counterexample:
  "filter retained (rows example_outside) = []
   \<and> snd (load_data FileNotFoundError) = \<lparr>columns = [], rows = []\<rparr>
   \<and> snd (load_data (Csv example_outside)) =
       \<lparr>columns = [''ident'', ''type'', ''name'', ''latitude_deg'', ''longitude_deg'',
                   ''elevation_ft'', ''iso_region'', ''municipality'', ''scheduled_service''],
        rows = []\<rparr>
   \<and> snd (load_data FileNotFoundError) \<noteq> snd (load_data (Csv example_outside))"
  by (simp add: load_data_def load_data_with_def stable_sort_def Let_def DataFrame_def example_outside_def example_airport_def
      retained_def set_index_id_def select_rows_def isin_def cell_isin_def col_def STATES_keys_def
      STATES_def airport_types_def sort_values_elevation_def)

text \<open>
  Claim C10, amended: \<open>load_data\<close> returns a table without rows, for which the emptiness
  test \<^verbatim>\<open>data.empty\<close> holds, both when the file is missing (a table without columns) and
  when the file is read but no row is retained (a table with the file's columns other
  than \<^verbatim>\<open>id\<close>); \<open>main\<close>, which tests emptiness only, calls nothing but \<open>load_data\<close> in
  both cases.
\<close>

theorem load_failure_same_emptiness:
  "rows (snd (load_data FileNotFoundError)) = []
   \<and> columns (snd (load_data FileNotFoundError)) = []
   \<and> frame_empty (snd (load_data FileNotFoundError))
   \<and> snd (main FileNotFoundError w) = [Load_data]
   \<and> (filter retained (rows f) = [] \<longrightarrow>
        rows (snd (load_data (Csv f))) = []
        \<and> columns (snd (load_data (Csv f))) = removeAll ''id'' (columns f)
        \<and> frame_empty (snd (load_data (Csv f)))
        \<and> main (Csv f) w =
            ([St_title, St_sidebar_header, St_sidebar_markdown, St_sidebar_write], [Load_data]))"
proof -
  have a: "snd (load_data FileNotFoundError) = DataFrame" by (simp add: load_data_def load_data_with_def stable_sort_def)
  have e: "frame_empty (snd (load_data FileNotFoundError))"
    by (simp add: a frame_empty_def DataFrame_def)
  have b: "rows (snd (load_data (Csv f))) = []" if "filter retained (rows f) = []"
    using that by (simp add: rows_load_data_retained)
  have c: "columns (snd (load_data (Csv f))) = removeAll ''id'' (columns f)"
    by (simp add: load_data_def load_data_with_def stable_sort_def Let_def set_index_id_def
        select_rows_def sort_values_elevation_def)
  have fe: "frame_empty (snd (load_data (Csv f)))" if "filter retained (rows f) = []"
    by (simp add: frame_empty_def b [OF that])
  have d: "main (Csv f) w =
      ([St_title, St_sidebar_header, St_sidebar_markdown, St_sidebar_write], [Load_data])"
    if "filter retained (rows f) = []"
    by (simp add: main_empty fe [OF that]) (simp add: load_data_def load_data_with_def stable_sort_def Let_def)
  have d0: "snd (main FileNotFoundError w) = [Load_data]"
    by (simp add: main_empty e)
  from a e b c fe d d0 show ?thesis
    by (simp add: DataFrame_def)
qed

theorem load_failure_same_emptiness_witness:
  "filter retained (rows example_outside) = []
   \<and> rows (snd (load_data (Csv example_outside))) = []
   \<and> columns (snd (load_data (Csv example_outside))) =
       [''ident'', ''type'', ''name'', ''latitude_deg'', ''longitude_deg'',
        ''elevation_ft'', ''iso_region'', ''municipality'', ''scheduled_service'']
   \<and> frame_empty (snd (load_data (Csv example_outside)))
   \<and> main (Csv example_outside) example_widgets =
       ([St_title, St_sidebar_header, St_sidebar_markdown, St_sidebar_write], [Load_data])
   \<and> snd (main FileNotFoundError example_widgets) = [Load_data]"
proof -
  have "filter retained (rows example_outside) = []"
    by (simp add: example_outside_def example_airport_def retained_def cell_isin_def
        STATES_keys_def STATES_def airport_types_def)
  with load_failure_same_emptiness [of example_widgets example_outside] show ?thesis
    by (simp add: example_outside_def)
qed

end
